theory Spec2Isabelle
  imports Complex_Main
begin

section \<open>Numbers, vectors and quaternions\<close>

text \<open>
  The controller computes with JavaScript numbers. They are modelled as \<^typ>\<open>real\<close>:
  rounding, infinities and NaN are outside the model. \<open>Vec3\<close> and \<open>Quat\<close> are the
  PlayCanvas engine's classes (an external dependency of the repository); the operations
  the controller calls are written out below as the engine computes them. The engine
  mutates the receiver and returns it; every call site of the controller works on a fresh
  clone, so the operations are pure functions here.
\<close>

definition EPS :: real where
  "EPS = 1 / 10 ^ 8"

definition clamp :: "real \<Rightarrow> real \<Rightarrow> real \<Rightarrow> real" where
  "clamp v lo hi = max lo (min hi v)"

datatype Vec3 = Vec3 (vx: real) (vy: real) (vz: real)

definition UP :: Vec3 where
  "UP = Vec3 0 1 0"

definition DOWN :: Vec3 where
  "DOWN = Vec3 0 (- 1) 0"

definition Vec3_add :: "Vec3 \<Rightarrow> Vec3 \<Rightarrow> Vec3" where
  "Vec3_add a b = Vec3 (vx a + vx b) (vy a + vy b) (vz a + vz b)"

definition Vec3_sub :: "Vec3 \<Rightarrow> Vec3 \<Rightarrow> Vec3" where
  "Vec3_sub a b = Vec3 (vx a - vx b) (vy a - vy b) (vz a - vz b)"

definition Vec3_mulScalar :: "Vec3 \<Rightarrow> real \<Rightarrow> Vec3" where
  "Vec3_mulScalar a s = Vec3 (vx a * s) (vy a * s) (vz a * s)"

definition Vec3_dot :: "Vec3 \<Rightarrow> Vec3 \<Rightarrow> real" where
  "Vec3_dot a b = vx a * vx b + vy a * vy b + vz a * vz b"

definition Vec3_lengthSq :: "Vec3 \<Rightarrow> real" where
  "Vec3_lengthSq a = vx a * vx a + vy a * vy a + vz a * vz a"

definition Vec3_length :: "Vec3 \<Rightarrow> real" where
  "Vec3_length a = sqrt (vx a * vx a + vy a * vy a + vz a * vz a)"

text \<open>\<open>Vec3.normalize\<close> leaves a vector of length zero as it is.\<close>

definition Vec3_normalize :: "Vec3 \<Rightarrow> Vec3" where
  "Vec3_normalize a =
     (let lengthSq = vx a * vx a + vy a * vy a + vz a * vz a in
      if lengthSq > 0
      then (let invLength = 1 / sqrt lengthSq in
            Vec3 (vx a * invLength) (vy a * invLength) (vz a * invLength))
      else a)"

text \<open>\<open>projectOnPlane\<close> of kccUtils.mjs.\<close>

definition projectOnPlane :: "Vec3 \<Rightarrow> Vec3 \<Rightarrow> Vec3" where
  "projectOnPlane v n =
     (let m = Vec3_lengthSq n in
      if m < EPS then v
      else (let d = Vec3_dot v n / m in
            Vec3 (vx v - vx n * d) (vy v - vy n * d) (vz v - vz n * d)))"

datatype Quat = Quat (qx: real) (qy: real) (qz: real) (qw: real)

definition Quat_mul :: "Quat \<Rightarrow> Quat \<Rightarrow> Quat" where
  "Quat_mul a b =
     Quat (qw a * qx b + qx a * qw b + qy a * qz b - qz a * qy b)
          (qw a * qy b + qy a * qw b + qz a * qx b - qx a * qz b)
          (qw a * qz b + qz a * qw b + qx a * qy b - qy a * qx b)
          (qw a * qw b - qx a * qx b - qy a * qy b - qz a * qz b)"

definition Quat_length :: "Quat \<Rightarrow> real" where
  "Quat_length a = sqrt (qx a * qx a + qy a * qy a + qz a * qz a + qw a * qw a)"

definition Quat_normalize :: "Quat \<Rightarrow> Quat" where
  "Quat_normalize a =
     (let len = Quat_length a in
      if len = 0 then Quat 0 0 0 1
      else (let inv = 1 / len in Quat (qx a * inv) (qy a * inv) (qz a * inv) (qw a * inv)))"

text \<open>\<open>Quat.invert\<close> is the conjugate, normalised.\<close>

definition Quat_invert :: "Quat \<Rightarrow> Quat" where
  "Quat_invert a = Quat_normalize (Quat (- qx a) (- qy a) (- qz a) (qw a))"

definition Quat_transformVector :: "Quat \<Rightarrow> Vec3 \<Rightarrow> Vec3" where
  "Quat_transformVector q v =
     (let ix = qw q * vx v + qy q * vz v - qz q * vy v;
          iy = qw q * vy v + qz q * vx v - qx q * vz v;
          iz = qw q * vz v + qx q * vy v - qy q * vx v;
          iw = - qx q * vx v - qy q * vy v - qz q * vz v
      in Vec3 (ix * qw q + iw * - qx q + iy * - qz q - iz * - qy q)
              (iy * qw q + iw * - qy q + iz * - qx q - ix * - qz q)
              (iz * qw q + iw * - qz q + ix * - qy q - iy * - qx q))"

text \<open>
  \<open>Quat.setFromEulerAngles(ex, ey, ez)\<close>, angles in degrees, and the \<open>y\<close> component of
  \<open>Quat.getEulerAngles\<close>, in degrees (the only component the controller reads).
\<close>

definition Quat_setFromEulerAngles :: "real \<Rightarrow> real \<Rightarrow> real \<Rightarrow> Quat" where
  "Quat_setFromEulerAngles ex ey ez =
     (let halfToRad = (1 / 2) * (pi / 180);
          sx = sin (ex * halfToRad); cx = cos (ex * halfToRad);
          sy = sin (ey * halfToRad); cy = cos (ey * halfToRad);
          sz = sin (ez * halfToRad); cz = cos (ez * halfToRad)
      in Quat (sx * cy * cz - cx * sy * sz)
              (cx * sy * cz + sx * cy * sz)
              (cx * cy * sz - sx * sy * cz)
              (cx * cy * cz + sx * sy * sz))"

definition Quat_getEulerAngles_y :: "Quat \<Rightarrow> real" where
  "Quat_getEulerAngles_y q =
     (let a2 = 2 * (qw q * qy q - qx q * qz q) in
      (if a2 \<le> - (99999 / 100000) then - pi / 2
       else if a2 \<ge> 99999 / 100000 then pi / 2
       else arcsin a2) * (180 / pi))"

section \<open>The shape-sweep oracle and the controller's state\<close>

text \<open>
  An entity of the scene is known to the controller by its identity only. A hit of
  \<open>sphereCast\<close> is a \<open>ConvexCastResult\<close> (convex-cast.js); \<open>convexCast\<close> returns
  \<open>null\<close> unless the hit body has an entity, so \<open>!hit || !hit.entity\<close> is \<open>None\<close>.
\<close>

type_synonym entity = nat

record hit =
  entity :: entity
  hitFraction :: real
  point :: Vec3
  normal :: Vec3

text \<open>
  The world a tick runs in: the sphere cast of the rigid-body system (radius, start, end)
  and the poses of the scene's entities. The controller never changes it.
\<close>

record world =
  sphereCast :: "real \<Rightarrow> Vec3 \<Rightarrow> Vec3 \<Rightarrow> hit option"
  getPosition :: "entity \<Rightarrow> Vec3"
  getRotation :: "entity \<Rightarrow> Quat"

text \<open>
  The script instance \<open>this\<close> of kcc.mjs: its attributes, its runtime fields (written
  \<open>_velY\<close>, \<open>_grounded\<close>, ... in the source) and the pose of the entity it drives
  (\<open>this.entity.getPosition()\<close>, \<open>this.entity.getRotation()\<close>). The number of sweeps per
  pass is a natural number. The debug switch and its colours only draw, and are left out.
\<close>

record KCC =
  speed :: real
  gravity :: real
  jumpSpeed :: real
  airControl :: real
  radius :: real
  maxIterations :: nat
  slopeLimitDeg :: real
  skin :: real
  groundSnap :: real
  hover :: real
  velY :: real
  horizontal :: real
  vertical :: real
  jumpPressed :: bool
  yawDelta :: real
  grounded :: bool
  wasGrounded :: bool
  groundEntity :: "entity option"
  groundPrevPos :: Vec3
  groundPrevRot :: Quat
  groundCandidate :: "entity option"
  steepNormal :: "Vec3 option"
  entityPos :: Vec3
  entityRot :: Quat

section \<open>The collide-and-slide sweep (kccUtils.mjs)\<close>

text \<open>The local constants of one loop iteration of \<open>sweep\<close>.\<close>

definition hitDist :: "hit \<Rightarrow> Vec3 \<Rightarrow> real" where
  "hitDist h remaining =
     clamp (hitFraction h * Vec3_length remaining) 0 (Vec3_length remaining)"

definition stepDist :: "KCC \<Rightarrow> hit \<Rightarrow> Vec3 \<Rightarrow> real" where
  "stepDist kcc h remaining = max (hitDist h remaining - skin kcc) 0"

definition stepTo :: "KCC \<Rightarrow> hit \<Rightarrow> Vec3 \<Rightarrow> Vec3 \<Rightarrow> Vec3" where
  "stepTo kcc h pos remaining =
     (if stepDist kcc h remaining > EPS
      then Vec3_add pos (Vec3_mulScalar (Vec3_normalize remaining) (stepDist kcc h remaining))
      else pos)"

definition cosTheta :: "Vec3 \<Rightarrow> real" where
  "cosTheta n = clamp (Vec3_dot n UP) (- 1) 1"

definition slopeDeg :: "Vec3 \<Rightarrow> real" where
  "slopeDeg n = arccos (cosTheta n) * 180 / pi"

definition walkable :: "KCC \<Rightarrow> Vec3 \<Rightarrow> bool" where
  "walkable kcc n = (slopeDeg n < slopeLimitDeg kcc)"

text \<open>The wall normal of a hit: the contact normal flattened to the horizontal plane.\<close>

definition wallNormal :: "Vec3 \<Rightarrow> Vec3" where
  "wallNormal n =
     (let wallN = Vec3 (vx n) 0 (vz n) in
      if Vec3_lengthSq wallN > EPS then Vec3_normalize wallN else wallN)"

text \<open>
  The variables of the loop: the controller (the loop writes \<open>_velY\<close>, \<open>_grounded\<close>,
  \<open>_groundCandidate\<close> and \<open>_steepNormal\<close>), \<open>pos\<close>, \<open>remaining\<close>, the two recorded wall
  normals, and, in \<open>casts\<close>, the segments handed to \<open>sphereCast\<close> so far, in order (the
  segments the debug lines show).
\<close>

record sweep_state =
  kcc_of :: KCC
  pos :: Vec3
  remaining :: Vec3
  wallN1 :: "Vec3 option"
  wallN2 :: "Vec3 option"
  casts :: "(Vec3 \<times> Vec3) list"

datatype flow = Break | Continue

text \<open>The branch of the vertical (gravity) pass after a hit.\<close>

definition verticalHit :: "hit \<Rightarrow> sweep_state \<Rightarrow> sweep_state \<times> flow" where
  "verticalHit h st =
     (let kcc = kcc_of st; rem = remaining st in
      if vy rem > 0 then (st\<lparr>kcc_of := kcc\<lparr>velY := 0\<rparr>\<rparr>, Break)
      else if vy rem < 0 then
        (if walkable kcc (normal h) then
           (let r = projectOnPlane (Vec3_mulScalar rem (1 - hitFraction h)) (normal h);
                r' = (if \<bar>vy r\<bar> < EPS then Vec3 (vx r) 0 (vz r) else r)
            in (st\<lparr>kcc_of := kcc\<lparr>grounded := True, groundCandidate := Some (entity h),
                                    velY := 0\<rparr>,
                    remaining := r'\<rparr>, Continue))
         else
           (let sinTheta = sqrt (max (1 - cosTheta (normal h) * cosTheta (normal h)) 0);
                slideDir = Vec3_normalize (projectOnPlane DOWN (normal h));
                slideMag = \<bar>vy rem\<bar> * sinTheta * (1 - hitFraction h)
            in (st\<lparr>kcc_of := kcc\<lparr>steepNormal := Some (normal h)\<rparr>,
                    remaining := Vec3_add (Vec3_mulScalar slideDir slideMag)
                                          (Vec3_mulScalar (normal h) (skin kcc))\<rparr>,
                Continue)))
      else (st, Continue))"

text \<open>The branch of the horizontal (player) pass after a hit.\<close>

definition horizontalHit :: "hit \<Rightarrow> sweep_state \<Rightarrow> sweep_state \<times> flow" where
  "horizontalHit h st =
     (let kcc = kcc_of st; rem = remaining st in
      if walkable kcc (normal h) then
        (st\<lparr>kcc_of := kcc\<lparr>grounded := True, groundCandidate := Some (entity h)\<rparr>,
            remaining := projectOnPlane (Vec3_mulScalar rem (1 - hitFraction h)) (normal h)\<rparr>,
         Continue)
      else
        (let wallN = wallNormal (normal h);
             w1 = (case wallN1 st of None \<Rightarrow> Some wallN | Some n1 \<Rightarrow> Some n1);
             w2 = (case wallN1 st of None \<Rightarrow> wallN2 st
                   | Some n1 \<Rightarrow> if Vec3_dot wallN n1 < 99 / 100 then Some wallN else wallN2 st)
         in case (w1, w2) of
              (Some n1, Some n2) \<Rightarrow>
                (st\<lparr>wallN1 := w1, wallN2 := w2, remaining := Vec3 0 0 0\<rparr>, Continue)
            | _ \<Rightarrow>
                (let lockN = (case w1 of Some n1 \<Rightarrow> n1 | None \<Rightarrow> wallN)
                 in (st\<lparr>wallN1 := w1, wallN2 := w2,
                         remaining :=
                           Vec3_add (projectOnPlane (Vec3_mulScalar rem (1 - hitFraction h)) lockN)
                                    (Vec3_mulScalar lockN (skin kcc))\<rparr>,
                     Continue))))"

text \<open>One iteration of the \<open>for\<close> loop of \<open>sweep\<close>.\<close>

definition sweep_body :: "world \<Rightarrow> bool \<Rightarrow> sweep_state \<Rightarrow> sweep_state \<times> flow" where
  "sweep_body w isVerticalPass st =
     (if Vec3_lengthSq (remaining st) < EPS then (st, Break)
      else
        (let end = Vec3_add (pos st) (remaining st);
             st1 = st\<lparr>casts := casts st @ [(pos st, end)]\<rparr>
         in case sphereCast w (radius (kcc_of st)) (pos st) end of
              None \<Rightarrow> (st1\<lparr>pos := Vec3_add (pos st) (remaining st)\<rparr>, Break)
            | Some h \<Rightarrow>
                (let st2 = st1\<lparr>pos := stepTo (kcc_of st) h (pos st) (remaining st)\<rparr>
                 in if isVerticalPass then verticalHit h st2 else horizontalHit h st2)))"

text \<open>
  The loop \<open>for (let i = 0; i < kcc.maxIterations; ++i)\<close>, by the number of iterations
  still allowed.
\<close>

fun sweep_loop :: "world \<Rightarrow> bool \<Rightarrow> nat \<Rightarrow> sweep_state \<Rightarrow> sweep_state" where
  "sweep_loop w isVerticalPass 0 st = st"
| "sweep_loop w isVerticalPass (Suc n) st =
     (case sweep_body w isVerticalPass st of
        (st', Break) \<Rightarrow> st'
      | (st', Continue) \<Rightarrow> sweep_loop w isVerticalPass n st')"

text \<open>
  \<open>sweep(kcc, pos, disp, isVerticalPass)\<close>. The source returns \<open>pos\<close> and leaves its
  writes in \<open>kcc\<close>: they are \<open>pos\<close> and \<open>kcc_of\<close> of the final loop state.
\<close>

definition sweep :: "world \<Rightarrow> KCC \<Rightarrow> Vec3 \<Rightarrow> Vec3 \<Rightarrow> bool \<Rightarrow> sweep_state" where
  "sweep w kcc p disp isVerticalPass =
     sweep_loop w isVerticalPass (maxIterations kcc)
       \<lparr>kcc_of = kcc, pos = p, remaining = disp, wallN1 = None, wallN2 = None, casts = []\<rparr>"

section \<open>The controller (kcc.mjs)\<close>

definition initialize :: "KCC \<Rightarrow> KCC" where
  "initialize k =
     k\<lparr>velY := 0, horizontal := 0, vertical := 0, jumpPressed := False, yawDelta := 0,
       grounded := False, wasGrounded := False, groundEntity := None,
       groundPrevPos := Vec3 0 0 0, groundPrevRot := Quat 0 0 0 1,
       groundCandidate := None, steepNormal := None\<rparr>"

definition setInput :: "real \<Rightarrow> real \<Rightarrow> bool \<Rightarrow> real \<Rightarrow> KCC \<Rightarrow> KCC" where
  "setInput h v jump yaw k =
     k\<lparr>horizontal := h, vertical := v, jumpPressed := jump, yawDelta := yaw\<rparr>"

text \<open>
  The entity the script drives is taken to have no parent and unit scale: its local and
  world rotation coincide, \<open>rotateLocal\<close> multiplies the rotation on the right, and
  \<open>forward\<close> and \<open>right\<close> are the rotated, normalised \<open>-Z\<close> and \<open>X\<close> axes.
\<close>

definition entityForward :: "KCC \<Rightarrow> Vec3" where
  "entityForward k =
     Vec3_mulScalar (Vec3_normalize (Quat_transformVector (entityRot k) (Vec3 0 0 1))) (- 1)"

definition entityRight :: "KCC \<Rightarrow> Vec3" where
  "entityRight k = Vec3_normalize (Quat_transformVector (entityRot k) (Vec3 1 0 0))"

text \<open>Step 1 of \<open>update\<close>: apply the player's yaw.\<close>

definition applyYaw :: "KCC \<Rightarrow> KCC" where
  "applyYaw k =
     (if \<bar>yawDelta k\<bar> > EPS
      then k\<lparr>entityRot := Quat_mul (entityRot k) (Quat_setFromEulerAngles 0 (yawDelta k) 0),
             yawDelta := 0\<rparr>
      else k)"

text \<open>
  Step 2: follow the moving ground, position and rotation about \<open>Y\<close> only. \<open>yawOnly\<close>
  is the quaternion the source builds from the \<open>y\<close> Euler angle of the platform's
  rotation since the snapshot.
\<close>

definition yawOnly :: "Quat \<Rightarrow> Quat" where
  "yawOnly deltaRot = Quat_setFromEulerAngles 0 (Quat_getEulerAngles_y deltaRot) 0"

definition followGround :: "world \<Rightarrow> KCC \<Rightarrow> KCC" where
  "followGround w k =
     (if wasGrounded k then
        (case groundEntity k of
           None \<Rightarrow> k
         | Some g \<Rightarrow>
             (let gp = getPosition w g;
                  gr = getRotation w g;
                  deltaRot = Quat_mul gr (Quat_invert (groundPrevRot k));
                  yawQuat = yawOnly deltaRot;
                  rel = Quat_transformVector yawQuat (Vec3_sub (entityPos k) (groundPrevPos k))
              in k\<lparr>entityRot := Quat_mul yawQuat (entityRot k),
                    entityPos := Vec3_add gp rel\<rparr>))
      else k)"

text \<open>Step 3: jump.\<close>

definition jump :: "KCC \<Rightarrow> KCC" where
  "jump k =
     (if grounded k \<and> jumpPressed k
      then k\<lparr>velY := jumpSpeed k, grounded := False\<rparr>
      else k)\<lparr>jumpPressed := False\<rparr>"

text \<open>
  Step 4: the horizontal input vector. It stays the zero vector unless
  \<open>this._horizontal || this._vertical\<close>, that is, unless one of the axes is not zero.
\<close>

definition horizDir :: "KCC \<Rightarrow> Vec3" where
  "horizDir k =
     (if horizontal k = 0 \<and> vertical k = 0
      then Vec3 0 0 0
      else Vec3_normalize
             (Vec3_add (Vec3_mulScalar (entityForward k) (- vertical k))
                       (Vec3_mulScalar (entityRight k) (horizontal k))))"

definition desiredHoriz :: "real \<Rightarrow> KCC \<Rightarrow> Vec3" where
  "desiredHoriz dt k =
     (let moveSpeed = (if grounded k then speed k else speed k * airControl k)
      in Vec3_mulScalar (horizDir k) (moveSpeed * dt))"

text \<open>Step 6: clamp the uphill component when on a steep slope.\<close>

definition clampUphill :: "KCC \<Rightarrow> Vec3 \<Rightarrow> Vec3" where
  "clampUphill k dh =
     (case steepNormal k of
        None \<Rightarrow> dh
      | Some n \<Rightarrow>
          (let upDir = Vec3_normalize (projectOnPlane UP n);
               uphill = Vec3_dot dh upDir
           in if uphill > 0 then Vec3_sub dh (Vec3_mulScalar upDir uphill) else dh))"

text \<open>
  The local state of a tick after step 3: the controller, the local \<open>pos\<close>, and the
  segments handed to \<open>sphereCast\<close> so far in this tick.
\<close>

record tick_state =
  self :: KCC
  tpos :: Vec3
  tcasts :: "(Vec3 \<times> Vec3) list"

definition verticalPass :: "world \<Rightarrow> real \<Rightarrow> tick_state \<Rightarrow> tick_state" where
  "verticalPass w desiredVert t =
     (if \<bar>desiredVert\<bar> > EPS
      then (let r = sweep w (self t) (tpos t) (Vec3 0 desiredVert 0) True
            in \<lparr>self = kcc_of r, tpos = pos r, tcasts = tcasts t @ casts r\<rparr>)
      else t)"

definition horizontalPass :: "world \<Rightarrow> Vec3 \<Rightarrow> tick_state \<Rightarrow> tick_state" where
  "horizontalPass w dh t =
     (if Vec3_lengthSq dh > EPS
      then (let r = sweep w (self t) (tpos t) dh False
            in \<lparr>self = kcc_of r, tpos = pos r, tcasts = tcasts t @ casts r\<rparr>)
      else t)"

text \<open>
  Steps 4 to 7: input, gravity, uphill clamp, the two passes, and the clearing of the
  steep normal that follows them.
\<close>

definition movePasses :: "world \<Rightarrow> real \<Rightarrow> KCC \<Rightarrow> tick_state" where
  "movePasses w dt k =
     (let dh0 = desiredHoriz dt k;
          k1 = k\<lparr>velY := velY k + gravity k * dt\<rparr>;
          desiredVert = velY k1 * dt;
          dh = clampUphill k1 dh0;
          k2 = k1\<lparr>grounded := False, groundCandidate := None\<rparr>;
          t1 = verticalPass w desiredVert \<lparr>self = k2, tpos = entityPos k2, tcasts = []\<rparr>;
          t2 = horizontalPass w dh t1
      in t2\<lparr>self := (self t2)\<lparr>steepNormal := None\<rparr>\<rparr>)"

text \<open>Step 8: ground snap.\<close>

definition groundSnapStep :: "world \<Rightarrow> tick_state \<Rightarrow> tick_state" where
  "groundSnapStep w t =
     (let k = self t; p = tpos t in
      if \<not> grounded k \<and> velY k < 0 \<and> groundSnap k > 0 then
        (let end = Vec3_add p (Vec3_mulScalar UP (- groundSnap k));
             t1 = t\<lparr>tcasts := tcasts t @ [(p, end)]\<rparr>
         in case sphereCast w (radius k) p end of
              None \<Rightarrow> t1
            | Some snapHit \<Rightarrow>
                if slopeDeg (normal snapHit) < slopeLimitDeg k
                then t1\<lparr>self := k\<lparr>grounded := True, groundCandidate := Some (entity snapHit)\<rparr>,
                        tpos := Vec3 (vx p)
                                  (vy p - clamp (hitFraction snapHit * groundSnap k) 0 (groundSnap k))
                                  (vz p)\<rparr>
                else t1)
      else t)"

text \<open>Steps 9 to 12: hover, commit, reset of the vertical velocity, remembered ground.\<close>

definition finishTick :: "world \<Rightarrow> tick_state \<Rightarrow> tick_state" where
  "finishTick w t =
     (let k = self t;
          p = (if grounded k then Vec3_add (tpos t) (Vec3_mulScalar UP (hover k)) else tpos t);
          k1 = k\<lparr>entityPos := p\<rparr>;
          k2 = (if grounded k1 \<and> velY k1 < 0 then k1\<lparr>velY := 0\<rparr> else k1);
          k3 = (if grounded k2 then
                  (case groundCandidate k2 of
                     None \<Rightarrow> k2\<lparr>groundEntity := None\<rparr>
                   | Some g \<Rightarrow> k2\<lparr>groundEntity := Some g,
                                  groundPrevPos := getPosition w g,
                                  groundPrevRot := getRotation w g\<rparr>)
                else k2\<lparr>groundEntity := None\<rparr>)
      in t\<lparr>self := k3\<lparr>wasGrounded := grounded k3\<rparr>, tpos := p\<rparr>)"

text \<open>\<open>update(dt)\<close>: the tick with its local state, and the controller it leaves.\<close>

definition update_tick :: "world \<Rightarrow> real \<Rightarrow> KCC \<Rightarrow> tick_state" where
  "update_tick w dt k =
     finishTick w (groundSnapStep w (movePasses w dt (jump (followGround w (applyYaw k)))))"

definition update :: "world \<Rightarrow> real \<Rightarrow> KCC \<Rightarrow> KCC" where
  "update w dt k = self (update_tick w dt k)"

section \<open>Predicates used to state the properties\<close>

text \<open>
  \<open>frame\<close> forgets the four fields of the controller that \<open>sweep\<close> writes; two
  controllers with the same frame agree on every other field.
\<close>

definition frame :: "KCC \<Rightarrow> KCC" where
  "frame k = k\<lparr>velY := 0, grounded := False, groundCandidate := None, steepNormal := None\<rparr>"





section \<open>Scenes and controllers for the concrete runs\<close>

text \<open>The attribute defaults of kcc.mjs, after \<open>initialize\<close>, with the entity at the origin.\<close>

definition defaultKCC :: KCC where
  "defaultKCC =
     \<lparr>speed = 6, gravity = - (981 / 100), jumpSpeed = 6, airControl = 1, radius = 1 / 2,
      maxIterations = 5, slopeLimitDeg = 50, skin = 1 / 100, groundSnap = 3 / 10,
      hover = 2 / 10, velY = 0, horizontal = 0, vertical = 0, jumpPressed = False,
      yawDelta = 0, grounded = False, wasGrounded = False, groundEntity = None,
      groundPrevPos = Vec3 0 0 0, groundPrevRot = Quat 0 0 0 1, groundCandidate = None,
      steepNormal = None, entityPos = Vec3 0 0 0, entityRot = Quat 0 0 0 1\<rparr>"

text \<open>Open space: no cast ever hits.\<close>

definition openWorld :: world where
  "openWorld =
     \<lparr>sphereCast = (\<lambda>r a b. None), getPosition = (\<lambda>e. Vec3 0 0 0),
      getRotation = (\<lambda>e. Quat 0 0 0 1)\<rparr>"

text \<open>The controller resting on the floor \<open>y = 0\<close>: the sphere's centre is one radius up.\<close>

definition restingKCC :: KCC where
  "restingKCC = defaultKCC\<lparr>entityPos := Vec3 0 (1 / 2) 0\<rparr>"

text \<open>
  A floor: the plane \<open>y = 0\<close>, entity 1, met by a sphere of radius \<open>r\<close> that moves down
  to a centre below \<open>r\<close>. The entity's pose is away from the origin.
\<close>

definition floorCast :: "real \<Rightarrow> Vec3 \<Rightarrow> Vec3 \<Rightarrow> hit option" where
  "floorCast r a b =
     (if vy b < r \<and> vy b < vy a
      then Some \<lparr>entity = 1,
                 hitFraction = (if vy a \<le> r then 0 else (vy a - r) / (vy a - vy b)),
                 point = Vec3 (vx a) 0 (vz a),
                 normal = Vec3 0 1 0\<rparr>
      else None)"

definition floorWorld :: world where
  "floorWorld =
     \<lparr>sphereCast = floorCast, getPosition = (\<lambda>e. Vec3 2 0 3),
      getRotation = (\<lambda>e. Quat 0 0 0 1)\<rparr>"

text \<open>A tick that ended airborne and falling, a little above the floor; and one grounded.\<close>

definition fallingTick :: tick_state where
  "fallingTick = \<lparr>self = defaultKCC\<lparr>velY := - 1\<rparr>, tpos = Vec3 0 (3 / 5) 0, tcasts = []\<rparr>"

definition standingTick :: tick_state where
  "standingTick =
     \<lparr>self = defaultKCC\<lparr>grounded := True, groundCandidate := Some 1\<rparr>,
      tpos = Vec3 0 (1 / 2) 0, tcasts = []\<rparr>"



text \<open>
  A corner: casts that start at \<open>z = 0\<close> hit a wall facing \<open>+x\<close>, all others a wall
  facing \<open>-z\<close>. \<open>cornerStart\<close> is the first iteration of a horizontal pass into it,
  \<open>cornerSecond\<close> an iteration after the first wall has been recorded.
\<close>

definition cornerWorld :: world where
  "cornerWorld =
     \<lparr>sphereCast = (\<lambda>r a b.
        if vz a = 0
        then Some \<lparr>entity = 1, hitFraction = 1 / 2, point = a, normal = Vec3 1 0 0\<rparr>
        else Some \<lparr>entity = 2, hitFraction = 1 / 2, point = a, normal = Vec3 0 0 (- 1)\<rparr>),
      getPosition = (\<lambda>e. Vec3 0 0 0), getRotation = (\<lambda>e. Quat 0 0 0 1)\<rparr>"

definition cornerStart :: sweep_state where
  "cornerStart =
     \<lparr>kcc_of = defaultKCC, pos = Vec3 0 0 0, remaining = Vec3 (- (3 / 5)) 0 (4 / 5),
      wallN1 = None, wallN2 = None, casts = []\<rparr>"

definition cornerSecond :: sweep_state where
  "cornerSecond =
     \<lparr>kcc_of = defaultKCC, pos = Vec3 (- (3 / 10)) 0 (2 / 5), remaining = Vec3 0 0 (2 / 5),
      wallN1 = Some (Vec3 1 0 0), wallN2 = None, casts = []\<rparr>"

text \<open>
  Three walls and a ramp. The first wall faces \<open>+x\<close>; the second and the third are
  turned from it by about 7.6 degrees to either side, so each is within the 0.99 cutoff of
  the first while they are not within it of each other. Between the second and the third
  the pass meets a walkable ramp (about 37 degrees) that turns the motion towards the
  third wall. Every hit's normal opposes the motion of its cast.
\<close>

definition kinkWorld :: world where
  "kinkWorld =
     \<lparr>sphereCast = (\<lambda>r a b.
        if vz a = 0
        then Some \<lparr>entity = 1, hitFraction = 1 / 2, point = a, normal = Vec3 1 0 0\<rparr>
        else if vz a = 2 / 5
        then Some \<lparr>entity = 2, hitFraction = 1 / 2, point = a,
                   normal = Vec3 (112 / 113) 0 (- (15 / 113))\<rparr>
        else if vz a = 3 / 5
        then Some \<lparr>entity = 5, hitFraction = 1 / 2, point = a,
                   normal = Vec3 (- (9 / 25)) (4 / 5) (- (12 / 25))\<rparr>
        else if vz a = 7 / 10 \<and> vx b < vx a
        then Some \<lparr>entity = 3, hitFraction = 0, point = a,
                   normal = Vec3 (112 / 113) 0 (15 / 113)\<rparr>
        else None),
      getPosition = (\<lambda>e. Vec3 0 0 0), getRotation = (\<lambda>e. Quat 0 0 0 1)\<rparr>"

text \<open>The same controller with no skin margin, for the three walls.\<close>

definition kinkKCC :: KCC where
  "kinkKCC = defaultKCC\<lparr>skin := 0\<rparr>"

text \<open>
  A wall: the plane \<open>x = -4/5\<close>, facing \<open>+x\<close>, met by a sphere of radius \<open>r\<close> that
  moves towards it to a centre closer than \<open>r\<close>.
\<close>

definition wallCast :: "real \<Rightarrow> Vec3 \<Rightarrow> Vec3 \<Rightarrow> hit option" where
  "wallCast r a b =
     (if vx b < - (4 / 5) + r \<and> vx b < vx a
      then Some \<lparr>entity = 1,
                 hitFraction = (if vx a \<le> - (4 / 5) + r then 0
                                else (vx a - (- (4 / 5) + r)) / (vx a - vx b)),
                 point = Vec3 (- (4 / 5)) (vy a) (vz a),
                 normal = Vec3 1 0 0\<rparr>
      else None)"

definition wallWorld :: world where
  "wallWorld =
     \<lparr>sphereCast = wallCast, getPosition = (\<lambda>e. Vec3 0 0 0),
      getRotation = (\<lambda>e. Quat 0 0 0 1)\<rparr>"

text \<open>The default controller with a single iteration allowed to each pass.\<close>

definition oneIterKCC :: KCC where
  "oneIterKCC = defaultKCC\<lparr>maxIterations := 1\<rparr>"

text \<open>
  A slope limit of 60 degrees, and the first iteration of a downward pass that starts
  resting on the floor.
\<close>

definition slope60KCC :: KCC where
  "slope60KCC = defaultKCC\<lparr>slopeLimitDeg := 60\<rparr>"

definition landingStart :: sweep_state where
  "landingStart =
     \<lparr>kcc_of = restingKCC, pos = Vec3 0 (1 / 2) 0, remaining = Vec3 0 (- (1 / 10)) 0,
      wallN1 = None, wallN2 = None, casts = []\<rparr>"

text \<open>
  A steep face (about 74 degrees, normal \<open>(24/25, 7/25, 0)\<close>) that a cast straight
  down hits halfway, and the controller one unit above the origin.
\<close>

definition steepWorld :: world where
  "steepWorld =
     \<lparr>sphereCast = (\<lambda>r a b.
        if vx b = vx a \<and> vy b < vy a
        then Some \<lparr>entity = 4, hitFraction = 1 / 2, point = b,
                   normal = Vec3 (24 / 25) (7 / 25) 0\<rparr>
        else None),
      getPosition = (\<lambda>e. Vec3 0 0 0), getRotation = (\<lambda>e. Quat 0 0 0 1)\<rparr>"

definition aboveSteepKCC :: KCC where
  "aboveSteepKCC = defaultKCC\<lparr>entityPos := Vec3 0 1 0\<rparr>"

text \<open>
  A platform, entity 1, that has moved by one unit along \<open>x\<close> since the snapshot and
  has turned by a yaw (about \<open>Y\<close>, quaternion \<open>(0, 3/5, 0, 4/5)\<close>) applied after a pitch
  (about \<open>X\<close>, quaternion \<open>(3/5, 0, 0, 4/5)\<close>); and a rider that was grounded on it, at
  height 0.7 and one unit along \<open>z\<close> from its pivot, with the snapshot of \<open>initialize\<close>.
\<close>

definition tiltWorld :: world where
  "tiltWorld =
     \<lparr>sphereCast = (\<lambda>r a b. None), getPosition = (\<lambda>e. Vec3 1 0 0),
      getRotation = (\<lambda>e. Quat (12 / 25) (12 / 25) (- (9 / 25)) (16 / 25))\<rparr>"

definition riderKCC :: KCC where
  "riderKCC =
     defaultKCC\<lparr>wasGrounded := True, groundEntity := Some 1, entityPos := Vec3 0 (7 / 10) 1\<rparr>"

text \<open>
  The same platform, one unit along \<open>x\<close> from the snapshot, turned about \<open>Y\<close> only, by
  more than a quarter turn: the quaternion \<open>(0, 4/5, 0, 3/5)\<close> is the yaw of about 106
  degrees (cosine \<open>-7/25\<close>, sine \<open>24/25\<close>).
\<close>

definition spinWorld :: world where
  "spinWorld =
     \<lparr>sphereCast = (\<lambda>r a b. None), getPosition = (\<lambda>e. Vec3 1 0 0),
      getRotation = (\<lambda>e. Quat 0 (4 / 5) 0 (3 / 5))\<rparr>"

section \<open>What a pass and a tick leave untouched\<close>

lemma frame_upd:
  "frame (k\<lparr>velY := a\<rparr>) = frame k" "frame (k\<lparr>grounded := b\<rparr>) = frame k"
  "frame (k\<lparr>groundCandidate := c\<rparr>) = frame k" "frame (k\<lparr>steepNormal := d\<rparr>) = frame k"
  by (simp_all add: frame_def)

lemma frame_fields:
  "horizontal (frame k) = horizontal k" "vertical (frame k) = vertical k"
  "jumpPressed (frame k) = jumpPressed k" "yawDelta (frame k) = yawDelta k"
  "wasGrounded (frame k) = wasGrounded k" "groundEntity (frame k) = groundEntity k"
  "groundPrevPos (frame k) = groundPrevPos k" "groundPrevRot (frame k) = groundPrevRot k"
  "entityPos (frame k) = entityPos k" "entityRot (frame k) = entityRot k"
  "maxIterations (frame k) = maxIterations k" "radius (frame k) = radius k"
  "skin (frame k) = skin k" "slopeLimitDeg (frame k) = slopeLimitDeg k"
  "groundSnap (frame k) = groundSnap k" "hover (frame k) = hover k"
  by (simp_all add: frame_def)

lemma frame_verticalHit: "frame (kcc_of (fst (verticalHit h st))) = frame (kcc_of st)"
  by (simp add: verticalHit_def frame_def Let_def)

lemma frame_horizontalHit: "frame (kcc_of (fst (horizontalHit h st))) = frame (kcc_of st)"
  by (simp add: horizontalHit_def frame_def Let_def split: option.splits)

lemma frame_sweep_body: "frame (kcc_of (fst (sweep_body w v st))) = frame (kcc_of st)"
  by (simp add: sweep_body_def Let_def frame_verticalHit frame_horizontalHit
      split: option.splits)

lemma frame_sweep_loop: "frame (kcc_of (sweep_loop w v n st)) = frame (kcc_of st)"
proof (induction n arbitrary: st)
  case 0
  show ?case by simp
next
  case (Suc n)
  obtain st' f where b: "sweep_body w v st = (st', f)"
    by (cases "sweep_body w v st")
  have "frame (kcc_of st') = frame (kcc_of st)"
    using frame_sweep_body [of w v st] b by simp
  then show ?case
    using Suc.IH [of st'] b by (cases f) simp_all
qed

lemma frame_sweep: "frame (kcc_of (sweep w k p d v)) = frame k"
  by (simp add: sweep_def frame_sweep_loop)

lemma frame_verticalPass: "frame (self (verticalPass w dv t)) = frame (self t)"
  by (simp add: verticalPass_def Let_def frame_sweep)

lemma frame_horizontalPass: "frame (self (horizontalPass w dh t)) = frame (self t)"
  by (simp add: horizontalPass_def Let_def frame_sweep)

lemma frame_movePasses: "frame (self (movePasses w dt k)) = frame k"
  unfolding movePasses_def Let_def
  by (simp add: frame_upd frame_horizontalPass frame_verticalPass)

lemma frame_groundSnapStep: "frame (self (groundSnapStep w t)) = frame (self t)"
  by (simp add: groundSnapStep_def Let_def frame_def split: option.splits)

lemma frame_moved: "frame (self (groundSnapStep w (movePasses w dt k))) = frame k"
  by (simp add: frame_groundSnapStep frame_movePasses)

lemma same_frame_input:
  assumes "frame a = frame b"
  shows "horizontal a = horizontal b" "vertical a = vertical b"
    "jumpPressed a = jumpPressed b" "yawDelta a = yawDelta b"
  using assms frame_fields by metis+

lemma finishTick_input:
  "horizontal (self (finishTick w t)) = horizontal (self t)"
  "vertical (self (finishTick w t)) = vertical (self t)"
  "jumpPressed (self (finishTick w t)) = jumpPressed (self t)"
  "yawDelta (self (finishTick w t)) = yawDelta (self t)"
  "steepNormal (self (finishTick w t)) = steepNormal (self t)"
  by (simp_all add: finishTick_def Let_def split: option.splits)

lemma before_passes_input:
  "horizontal (jump (followGround w (applyYaw k))) = horizontal k"
  "vertical (jump (followGround w (applyYaw k))) = vertical k"
  "jumpPressed (jump (followGround w (applyYaw k))) = False"
  "yawDelta (jump (followGround w (applyYaw k))) =
     (if \<bar>yawDelta k\<bar> > EPS then 0 else yawDelta k)"
  by (simp_all add: jump_def followGround_def applyYaw_def Let_def split: option.splits)

lemma update_input:
  "horizontal (update w dt k) = horizontal k"
  "vertical (update w dt k) = vertical k"
  "jumpPressed (update w dt k) = False"
  "yawDelta (update w dt k) = (if \<bar>yawDelta k\<bar> > EPS then 0 else yawDelta k)"
  unfolding update_def update_tick_def
  using same_frame_input [OF frame_moved [of w dt "jump (followGround w (applyYaw k))"]]
  by (simp_all add: finishTick_input before_passes_input)

section \<open>Pending input across a tick\<close>

text \<open>
  C2, as the code has it. \<open>update\<close> consumes the jump flag and the yaw delta only: after
  any \<open>update\<close> the jump flag is false, and the yaw delta is zero when its magnitude
  exceeded \<open>EPS\<close> and is otherwise the (at most \<open>EPS\<close> large) value it had. The
  horizontal and vertical axes are not touched: a tick without a new \<open>setInput\<close> call
  sees the axes of the last call again.
\<close>

theorem update_consumes_jump_and_yaw_only:
  "jumpPressed (update w dt k) = False \<and>
   yawDelta (update w dt k) = (if \<bar>yawDelta k\<bar> > EPS then 0 else yawDelta k) \<and>
   \<bar>yawDelta (update w dt k)\<bar> \<le> EPS \<and>
   horizontal (update w dt k) = horizontal k \<and>
   vertical (update w dt k) = vertical k"
  by (simp add: update_input EPS_def)

text \<open>
  C2, as the spec states it, fails: after \<open>setInput(1, 0, false, 0)\<close> and one tick in
  open space the horizontal axis is still 1.
\<close>

theorem update_keeps_axes_counterexample:
  "\<not> (horizontal (update openWorld (1 / 60) (setInput 1 0 False 0 defaultKCC)) = 0 \<and>
      vertical (update openWorld (1 / 60) (setInput 1 0 False 0 defaultKCC)) = 0 \<and>
      jumpPressed (update openWorld (1 / 60) (setInput 1 0 False 0 defaultKCC)) = False \<and>
      yawDelta (update openWorld (1 / 60) (setInput 1 0 False 0 defaultKCC)) = 0)"
  by (simp add: update_input setInput_def)

section \<open>Evaluating the model on concrete scenes\<close>

lemma Vec3_length_vertical: "Vec3_length (Vec3 0 y 0) = \<bar>y\<bar>"
  by (simp add: Vec3_length_def)

lemma Vec3_normalize_vertical: "Vec3_normalize (Vec3 0 y 0) = Vec3 0 (sgn y) 0"
  by (simp add: Vec3_normalize_def Let_def sgn_real_def)

lemma Vec3_length_z: "Vec3_length (Vec3 0 0 c) = \<bar>c\<bar>"
  by (simp add: Vec3_length_def)

lemma Vec3_normalize_z: "Vec3_normalize (Vec3 0 0 c) = Vec3 0 0 (sgn c)"
  by (simp add: Vec3_normalize_def Let_def sgn_real_def)

lemma Vec3_length_345: "Vec3_length (Vec3 (- (3 / 5)) 0 (4 / 5)) = 1"
  by (simp add: Vec3_length_def)

lemma Vec3_normalize_345: "Vec3_normalize (Vec3 (- (3 / 5)) 0 (4 / 5)) = Vec3 (- (3 / 5)) 0 (4 / 5)"
  by (simp add: Vec3_normalize_def)

lemma slopeDeg_UP: "slopeDeg (Vec3 0 1 0) = 0"
  by (simp add: slopeDeg_def cosTheta_def clamp_def Vec3_dot_def UP_def)

lemma slopeDeg_horizontal: "slopeDeg (Vec3 a 0 c) = 90"
  by (simp add: slopeDeg_def cosTheta_def clamp_def Vec3_dot_def UP_def)

lemma EPS_pos: "0 < EPS"
  by (simp add: EPS_def)

lemmas vec_defs = Vec3_add_def Vec3_sub_def Vec3_mulScalar_def Vec3_dot_def Vec3_lengthSq_def
  projectOnPlane_def UP_def DOWN_def EPS_def clamp_def

lemmas sweep_defs = sweep_def sweep_body_def verticalHit_def horizontalHit_def stepTo_def
  stepDist_def hitDist_def walkable_def wallNormal_def

lemmas tick_defs = update_def update_tick_def finishTick_def groundSnapStep_def movePasses_def
  verticalPass_def horizontalPass_def clampUphill_def desiredHoriz_def horizDir_def jump_def
  followGround_def applyYaw_def

lemmas scene_defs = defaultKCC_def restingKCC_def openWorld_def floorWorld_def floorCast_def

lemmas vertical_simps = Vec3_length_vertical Vec3_normalize_vertical slopeDeg_UP

lemmas z_simps = Vec3_length_z Vec3_normalize_z Vec3_length_345 Vec3_normalize_345

lemmas pass_defs = sweep_def sweep_body_def verticalHit_def horizontalHit_def stepTo_def
  stepDist_def hitDist_def walkable_def

lemma wallNormal_x: "wallNormal (Vec3 1 0 0) = Vec3 1 0 0"
  by (simp add: wallNormal_def Let_def Vec3_lengthSq_def Vec3_normalize_def EPS_def)

lemma wallNormal_kink:
  "wallNormal (Vec3 (112 / 113) 0 (- (15 / 113))) = Vec3 (112 / 113) 0 (- (15 / 113))"
  "wallNormal (Vec3 (112 / 113) 0 (15 / 113)) = Vec3 (112 / 113) 0 (15 / 113)"
  "wallNormal (Vec3 1 0 0) = Vec3 1 0 0"
  by (simp_all add: wallNormal_def Let_def Vec3_lengthSq_def Vec3_normalize_def EPS_def)

lemma Vec3_normalize_x: "Vec3_normalize (Vec3 1 0 0) = Vec3 1 0 0"
  "Vec3_normalize (Vec3 (- 1) 0 0) = Vec3 (- 1) 0 0"
  "Vec3_normalize (Vec3 0 0 1) = Vec3 0 0 1"
  by (simp_all add: Vec3_normalize_def)

lemma Vec3_normalize_known:
  assumes "l > 0" and "vx a * vx a + vy a * vy a + vz a * vz a = l * l"
  shows "Vec3_normalize a = Vec3 (vx a / l) (vy a / l) (vz a / l)"
proof -
  have "sqrt (l * l) = l" using assms(1) by simp
  then show ?thesis
    using assms by (simp add: Vec3_normalize_def Let_def)
qed

lemma normalize_downhill:
  "Vec3_normalize (Vec3 (168 / 625) (- (576 / 625)) 0) = Vec3 (7 / 25) (- (24 / 25)) 0"
  using Vec3_normalize_known [of "24 / 25" "Vec3 (168 / 625) (- (576 / 625)) 0"] by simp

lemma normalize_uphill:
  "Vec3_normalize (Vec3 (- (168 / 625)) (576 / 625) 0) = Vec3 (- (7 / 25)) (24 / 25) 0"
  using Vec3_normalize_known [of "24 / 25" "Vec3 (- (168 / 625)) (576 / 625) 0"] by simp

lemma sqrt_576_625: "sqrt (576 / 625) = 24 / 25"
  by (rule real_sqrt_unique) (simp_all add: power2_eq_square)

lemma slopeDeg_steep: "\<not> slopeDeg (Vec3 (24 / 25) (7 / 25) 0) < 50"
proof -
  have c: "cosTheta (Vec3 (24 / 25) (7 / 25) 0) = 7 / 25"
    by (simp add: cosTheta_def vec_defs)
  have "arccos (1 / 2) \<le> arccos (7 / 25)"
    by (rule arccos_le_arccos) simp_all
  then have "pi / 3 \<le> arccos (7 / 25)"
    by simp
  then have "60 \<le> arccos (7 / 25) * 180 / pi"
    using pi_gt_zero by (simp add: field_simps)
  then show ?thesis
    by (simp add: slopeDeg_def c)
qed


lemma slopeDeg_ramp: "slopeDeg (Vec3 (- (9 / 25)) (4 / 5) (- (12 / 25))) < 50"
proof -
  have c: "cosTheta (Vec3 (- (9 / 25)) (4 / 5) (- (12 / 25))) = 4 / 5"
    by (simp add: cosTheta_def vec_defs)
  have "(5 / 4 :: real) < sqrt 2"
    by (rule real_less_rsqrt) (simp add: power2_eq_square)
  then have "1 / sqrt 2 < (4 / 5 :: real)"
    by (simp add: field_simps)
  moreover have "- 1 \<le> 1 / sqrt 2"
    by (rule order_trans [of _ 0]) simp_all
  ultimately have "arccos (4 / 5) < arccos (1 / sqrt 2)"
    by (intro arccos_less_arccos) simp_all
  then have "arccos (4 / 5) < pi / 4"
    by (simp add: arccos_one_over_sqrt_2)
  then have "arccos (4 / 5) * 180 / pi < 45"
    using pi_gt_zero by (simp add: field_simps)
  then show ?thesis
    by (simp add: slopeDeg_def c)
qed

lemma Vec3_length_nonneg: "0 \<le> Vec3_length v"
  by (simp add: Vec3_length_def)

section \<open>The remembered ground\<close>






























section \<open>Ground snap\<close>

text \<open>
  C7. The probe casts only when the tick ended airborne, with negative vertical velocity
  and \<open>groundSnap > 0\<close>; a grounded tick is left as it is. When it casts, the segment
  goes down by \<open>groundSnap\<close>, and when that hits a walkable surface the position's
  \<open>y\<close> is lowered by \<open>clamp(hitFraction * groundSnap, 0, groundSnap)\<close> and the
  controller is grounded, which the end of the tick carries into the previous-grounded
  flag.
\<close>

theorem ground_snap_probe:
  "(tcasts (groundSnapStep w t) \<noteq> tcasts t \<longrightarrow>
      \<not> grounded (self t) \<and> velY (self t) < 0 \<and> groundSnap (self t) > 0) \<and>
   (grounded (self t) \<longrightarrow> groundSnapStep w t = t) \<and>
   (\<not> grounded (self t) \<and> velY (self t) < 0 \<and> groundSnap (self t) > 0 \<longrightarrow>
      tcasts (groundSnapStep w t) =
        tcasts t @ [(tpos t, Vec3 (vx (tpos t)) (vy (tpos t) - groundSnap (self t)) (vz (tpos t)))]) \<and>
   (\<not> grounded (self t) \<and> velY (self t) < 0 \<and> groundSnap (self t) > 0 \<and>
    sphereCast w (radius (self t)) (tpos t)
      (Vec3 (vx (tpos t)) (vy (tpos t) - groundSnap (self t)) (vz (tpos t))) = Some h \<and>
    walkable (self t) (normal h) \<longrightarrow>
      tpos (groundSnapStep w t) =
        Vec3 (vx (tpos t))
          (vy (tpos t) - clamp (hitFraction h * groundSnap (self t)) 0 (groundSnap (self t)))
          (vz (tpos t)) \<and>
      grounded (self (groundSnapStep w t)) \<and>
      groundCandidate (self (groundSnapStep w t)) = Some (entity h) \<and>
      wasGrounded (self (finishTick w (groundSnapStep w t))))"
proof -
  have e: "Vec3_add (tpos t) (Vec3_mulScalar UP (- groundSnap (self t))) =
           Vec3 (vx (tpos t)) (vy (tpos t) - groundSnap (self t)) (vz (tpos t))"
    by (simp add: Vec3_add_def Vec3_mulScalar_def UP_def)
  show ?thesis
    unfolding groundSnapStep_def Let_def e walkable_def
    by (auto simp add: finishTick_def Let_def split: option.splits)
qed


text \<open>
  A controller falling 0.1 above its resting height over the floor is pulled down by 0.1
  and grounded; a grounded one is not probed.
\<close>

theorem ground_snap_probe_witness:
  "tcasts (groundSnapStep floorWorld fallingTick) = [(Vec3 0 (3 / 5) 0, Vec3 0 (3 / 10) 0)] \<and>
   tpos (groundSnapStep floorWorld fallingTick) = Vec3 0 (1 / 2) 0 \<and>
   grounded (self (groundSnapStep floorWorld fallingTick)) \<and>
   groundCandidate (self (groundSnapStep floorWorld fallingTick)) = Some 1 \<and>
   wasGrounded (self (finishTick floorWorld (groundSnapStep floorWorld fallingTick))) \<and>
   groundSnapStep floorWorld standingTick = standingTick"
proof -
  let ?h = "\<lparr>entity = 1, hitFraction = 1 / 3, point = Vec3 0 0 0, normal = Vec3 0 1 0\<rparr>"
  have pre: "\<not> grounded (self fallingTick)" "velY (self fallingTick) < 0"
    "groundSnap (self fallingTick) > 0" "grounded (self standingTick)"
    by (simp_all add: fallingTick_def standingTick_def defaultKCC_def)
  have cast: "sphereCast floorWorld (radius (self fallingTick)) (tpos fallingTick)
      (Vec3 (vx (tpos fallingTick)) (vy (tpos fallingTick) - groundSnap (self fallingTick))
        (vz (tpos fallingTick))) = Some ?h"
    by (simp add: fallingTick_def defaultKCC_def floorWorld_def floorCast_def)
  have walk: "walkable (self fallingTick) (normal ?h)"
    by (simp add: walkable_def slopeDeg_UP fallingTick_def defaultKCC_def)
  have vals: "tpos fallingTick = Vec3 0 (3 / 5) 0" "groundSnap (self fallingTick) = 3 / 10"
    "tcasts fallingTick = []"
    by (simp_all add: fallingTick_def defaultKCC_def)
  show ?thesis
    using ground_snap_probe [of floorWorld fallingTick ?h]
      ground_snap_probe [of floorWorld standingTick ?h] pre cast walk
    by (simp add: vals clamp_def)
qed

section \<open>The loop of a pass\<close>

lemma sweep_body_converged:
  "Vec3_lengthSq (remaining st) < EPS \<Longrightarrow> sweep_body w v st = (st, Break)"
  by (simp add: sweep_body_def)

lemma sweep_body_miss:
  "Vec3_lengthSq (remaining st) \<ge> EPS \<Longrightarrow>
   sphereCast w (radius (kcc_of st)) (pos st) (Vec3_add (pos st) (remaining st)) = None \<Longrightarrow>
   sweep_body w v st =
     (st\<lparr>casts := casts st @ [(pos st, Vec3_add (pos st) (remaining st))],
         pos := Vec3_add (pos st) (remaining st)\<rparr>, Break)"
  by (simp add: sweep_body_def Let_def)

lemma sweep_body_hit:
  "Vec3_lengthSq (remaining st) \<ge> EPS \<Longrightarrow>
   sphereCast w (radius (kcc_of st)) (pos st) (Vec3_add (pos st) (remaining st)) = Some h \<Longrightarrow>
   sweep_body w v st =
     (if v
      then verticalHit h (st\<lparr>casts := casts st @ [(pos st, Vec3_add (pos st) (remaining st))],
                              pos := stepTo (kcc_of st) h (pos st) (remaining st)\<rparr>)
      else horizontalHit h (st\<lparr>casts := casts st @ [(pos st, Vec3_add (pos st) (remaining st))],
                                pos := stepTo (kcc_of st) h (pos st) (remaining st)\<rparr>))"
  by (simp add: sweep_body_def Let_def)

lemma sweep_loop_converged:
  "Vec3_lengthSq (remaining st) < EPS \<Longrightarrow> sweep_loop w v n st = st"
  by (cases n) (simp_all add: sweep_body_converged)










text \<open>
  C9, as the code has it. When the remaining displacement has squared length at least
  \<open>EPS\<close> and an iteration is left, a cast that reports no hit moves the position by the
  whole remaining displacement and ends the pass: for the pass as a whole, and for any
  iteration of the loop. A displacement of squared length below \<open>EPS\<close> is dropped
  without a cast, and the position stays.
\<close>

theorem open_space_identity:
  "(Vec3_lengthSq d \<ge> EPS \<and> 0 < maxIterations kcc \<and>
    sphereCast w (radius kcc) p (Vec3_add p d) = None \<longrightarrow>
      pos (sweep w kcc p d v) = Vec3_add p d \<and>
      casts (sweep w kcc p d v) = [(p, Vec3_add p d)] \<and>
      kcc_of (sweep w kcc p d v) = kcc) \<and>
   (Vec3_lengthSq (remaining st) \<ge> EPS \<and>
    sphereCast w (radius (kcc_of st)) (pos st) (Vec3_add (pos st) (remaining st)) = None \<longrightarrow>
      pos (sweep_loop w v (Suc n) st) = Vec3_add (pos st) (remaining st)) \<and>
   (Vec3_lengthSq d < EPS \<longrightarrow>
      pos (sweep w kcc p d v) = p \<and> casts (sweep w kcc p d v) = [])"
proof -
  let ?st0 = "\<lparr>kcc_of = kcc, pos = p, remaining = d, wallN1 = None, wallN2 = None, casts = []\<rparr>"
  have a: "pos (sweep w kcc p d v) = Vec3_add p d \<and>
      casts (sweep w kcc p d v) = [(p, Vec3_add p d)] \<and> kcc_of (sweep w kcc p d v) = kcc"
    if big: "Vec3_lengthSq d \<ge> EPS" and it: "0 < maxIterations kcc"
      and miss: "sphereCast w (radius kcc) p (Vec3_add p d) = None"
  proof -
    obtain m where m: "maxIterations kcc = Suc m"
      using it by (cases "maxIterations kcc") simp_all
    show ?thesis
      using sweep_body_miss [of ?st0 w v] big miss by (simp add: sweep_def m)
  qed
  have b: "pos (sweep_loop w v (Suc n) st) = Vec3_add (pos st) (remaining st)"
    if "Vec3_lengthSq (remaining st) \<ge> EPS"
      and "sphereCast w (radius (kcc_of st)) (pos st) (Vec3_add (pos st) (remaining st)) = None"
    using sweep_body_miss [OF that, of v] by simp
  have c: "pos (sweep w kcc p d v) = p \<and> casts (sweep w kcc p d v) = []"
    if "Vec3_lengthSq d < EPS"
    using sweep_body_converged [of ?st0 w v] that
    by (cases "maxIterations kcc") (simp_all add: sweep_def)
  show ?thesis using a b c by blast
qed


text \<open>In open space: a unit step, one iteration of a fall, and a displacement too small.\<close>

theorem open_space_identity_witness:
  "pos (sweep openWorld defaultKCC (Vec3 0 0 0) (Vec3 1 0 0) False) = Vec3 1 0 0 \<and>
   casts (sweep openWorld defaultKCC (Vec3 0 0 0) (Vec3 1 0 0) False) = [(Vec3 0 0 0, Vec3 1 0 0)] \<and>
   pos (sweep_loop openWorld True 1
          \<lparr>kcc_of = defaultKCC, pos = Vec3 0 2 0, remaining = Vec3 0 (- 1) 0, wallN1 = None,
           wallN2 = None, casts = []\<rparr>) = Vec3 0 1 0 \<and>
   pos (sweep openWorld defaultKCC (Vec3 0 0 0) (Vec3 0 (- (1 / 100000)) 0) True) = Vec3 0 0 0 \<and>
   casts (sweep openWorld defaultKCC (Vec3 0 0 0) (Vec3 0 (- (1 / 100000)) 0) True) = []"
proof -
  let ?st = "\<lparr>kcc_of = defaultKCC, pos = Vec3 0 2 0, remaining = Vec3 0 (- 1) 0, wallN1 = None,
           wallN2 = None, casts = []\<rparr>"
  have h: "Vec3_lengthSq (Vec3 1 0 0) \<ge> EPS" "0 < maxIterations defaultKCC"
    "sphereCast openWorld (radius defaultKCC) (Vec3 0 0 0) (Vec3_add (Vec3 0 0 0) (Vec3 1 0 0)) = None"
    "Vec3_lengthSq (remaining ?st) \<ge> EPS"
    "sphereCast openWorld (radius (kcc_of ?st)) (pos ?st) (Vec3_add (pos ?st) (remaining ?st)) = None"
    "Vec3_lengthSq (Vec3 0 (- (1 / 100000)) 0) < EPS"
    by (simp_all add: vec_defs defaultKCC_def openWorld_def)
  show ?thesis
    using open_space_identity [where d = "Vec3 1 0 0" and kcc = defaultKCC and w = openWorld
          and p = "Vec3 0 0 0" and v = False and st = ?st and n = 0]
      open_space_identity [where d = "Vec3 0 (- (1 / 100000)) 0" and kcc = defaultKCC
          and w = openWorld and p = "Vec3 0 0 0" and v = True and st = ?st and n = 0]
      h
    by (simp add: Vec3_add_def)
qed


text \<open>
  C9, as the spec states it, fails for the vertical pass of a tick of 1/500 s from rest
  (its displacement is \<open>-9.81 / 500\<^sup>2\<close>): open space, and the position does not move.
\<close>

theorem open_space_tiny_counterexample:
  "sphereCast openWorld (radius defaultKCC) (Vec3 0 0 0)
     (Vec3_add (Vec3 0 0 0) (Vec3 0 (- (981 / 25000000)) 0)) = None \<and>
   pos (sweep openWorld defaultKCC (Vec3 0 0 0) (Vec3 0 (- (981 / 25000000)) 0) True)
     \<noteq> Vec3_add (Vec3 0 0 0) (Vec3 0 (- (981 / 25000000)) 0)"
  by (simp add: sweep_defs vec_defs Let_def defaultKCC_def openWorld_def eval_nat_numeral)

section \<open>Walls and corners\<close>

lemma horizontalHit_first_wall:
  "wallN1 st = None \<Longrightarrow> \<not> walkable (kcc_of st) (normal h) \<Longrightarrow>
   wallN1 (fst (horizontalHit h st)) = Some (wallNormal (normal h))"
  by (simp add: horizontalHit_def Let_def split: option.splits)

lemma horizontalHit_keeps_wallN1:
  "wallN1 st = Some n1 \<Longrightarrow> wallN1 (fst (horizontalHit h st)) = Some n1"
  by (simp add: horizontalHit_def Let_def split: option.splits)

lemma horizontalHit_corner:
  "wallN1 st = Some n1 \<Longrightarrow> \<not> walkable (kcc_of st) (normal h) \<Longrightarrow>
   Vec3_dot (wallNormal (normal h)) n1 < 99 / 100 \<Longrightarrow>
   horizontalHit h st =
     (st\<lparr>wallN1 := Some n1, wallN2 := Some (wallNormal (normal h)), remaining := Vec3 0 0 0\<rparr>,
      Continue)"
  by (simp add: horizontalHit_def Let_def)

text \<open>
  C4, as the code has it. The first wall hit of a horizontal pass records its flattened
  normal, which is kept for the rest of the pass. A later wall hit whose flattened normal
  has dot product below 0.99 with that first recorded normal sets the remaining
  displacement to zero, and the pass ends where the approach to this hit has brought it:
  no further cast, no further movement, however many iterations are left. A wall hit
  whose flattened normal is within 0.99 of the first recorded one does not lock: the pass
  slides on along the first recorded wall.
\<close>

theorem corner_lock:
  "(wallN1 st = None \<and> Vec3_lengthSq (remaining st) \<ge> EPS \<and>
    sphereCast w (radius (kcc_of st)) (pos st) (Vec3_add (pos st) (remaining st)) = Some h \<and>
    \<not> walkable (kcc_of st) (normal h) \<longrightarrow>
      wallN1 (fst (sweep_body w False st)) = Some (wallNormal (normal h))) \<and>
   (wallN1 st = Some n1 \<longrightarrow> wallN1 (fst (sweep_body w False st)) = Some n1) \<and>
   (wallN1 st = Some n1 \<and> Vec3_lengthSq (remaining st) \<ge> EPS \<and>
    sphereCast w (radius (kcc_of st)) (pos st) (Vec3_add (pos st) (remaining st)) = Some h \<and>
    \<not> walkable (kcc_of st) (normal h) \<and>
    Vec3_dot (wallNormal (normal h)) n1 < 99 / 100 \<longrightarrow>
      remaining (fst (sweep_body w False st)) = Vec3 0 0 0 \<and>
      sweep_loop w False (Suc n) st = fst (sweep_body w False st) \<and>
      pos (sweep_loop w False (Suc n) st) = stepTo (kcc_of st) h (pos st) (remaining st) \<and>
      casts (sweep_loop w False (Suc n) st) =
        casts st @ [(pos st, Vec3_add (pos st) (remaining st))]) \<and>
   (wallN1 st = Some n1 \<and> wallN2 st = None \<and> Vec3_lengthSq (remaining st) \<ge> EPS \<and>
    sphereCast w (radius (kcc_of st)) (pos st) (Vec3_add (pos st) (remaining st)) = Some h \<and>
    \<not> walkable (kcc_of st) (normal h) \<and>
    Vec3_dot (wallNormal (normal h)) n1 \<ge> 99 / 100 \<longrightarrow>
      wallN2 (fst (sweep_body w False st)) = None \<and>
      remaining (fst (sweep_body w False st)) =
        Vec3_add (projectOnPlane (Vec3_mulScalar (remaining st) (1 - hitFraction h)) n1)
                 (Vec3_mulScalar n1 (skin (kcc_of st))))"
proof -
  let ?e = "Vec3_add (pos st) (remaining st)"
  let ?st2 = "st\<lparr>casts := casts st @ [(pos st, ?e)],
                  pos := stepTo (kcc_of st) h (pos st) (remaining st)\<rparr>"
  have d: "wallN2 (fst (sweep_body w False st)) = None \<and>
      remaining (fst (sweep_body w False st)) =
        Vec3_add (projectOnPlane (Vec3_mulScalar (remaining st) (1 - hitFraction h)) n1)
                 (Vec3_mulScalar n1 (skin (kcc_of st)))"
    if "wallN1 st = Some n1" and "wallN2 st = None" and "Vec3_lengthSq (remaining st) \<ge> EPS"
      and "sphereCast w (radius (kcc_of st)) (pos st) ?e = Some h"
      and "\<not> walkable (kcc_of st) (normal h)"
      and "Vec3_dot (wallNormal (normal h)) n1 \<ge> 99 / 100"
    using that by (simp add: sweep_body_hit horizontalHit_def Let_def)
  have a: "wallN1 (fst (sweep_body w False st)) = Some (wallNormal (normal h))"
    if "wallN1 st = None" and "Vec3_lengthSq (remaining st) \<ge> EPS"
      and "sphereCast w (radius (kcc_of st)) (pos st) ?e = Some h"
      and "\<not> walkable (kcc_of st) (normal h)"
    using that horizontalHit_first_wall [of ?st2 h] by (simp add: sweep_body_hit)
  have b: "wallN1 (fst (sweep_body w False st)) = Some n1" if "wallN1 st = Some n1"
    using that
    by (simp add: sweep_body_def Let_def horizontalHit_keeps_wallN1 split: option.splits)
  have c: "remaining (fst (sweep_body w False st)) = Vec3 0 0 0 \<and>
      sweep_loop w False (Suc n) st = fst (sweep_body w False st) \<and>
      pos (sweep_loop w False (Suc n) st) = stepTo (kcc_of st) h (pos st) (remaining st) \<and>
      casts (sweep_loop w False (Suc n) st) = casts st @ [(pos st, ?e)]"
    if w1: "wallN1 st = Some n1" and big: "Vec3_lengthSq (remaining st) \<ge> EPS"
      and hit: "sphereCast w (radius (kcc_of st)) (pos st) ?e = Some h"
      and steep: "\<not> walkable (kcc_of st) (normal h)"
      and far: "Vec3_dot (wallNormal (normal h)) n1 < 99 / 100"
  proof -
    let ?st3 = "?st2\<lparr>wallN1 := Some n1, wallN2 := Some (wallNormal (normal h)),
                      remaining := Vec3 0 0 0\<rparr>"
    have body: "sweep_body w False st = (?st3, Continue)"
      using sweep_body_hit [OF big hit, of False] horizontalHit_corner [of ?st2 n1 h] w1 steep far
      by simp
    have stop: "sweep_loop w False n ?st3 = ?st3"
      by (rule sweep_loop_converged) (simp add: Vec3_lengthSq_def EPS_pos)
    show ?thesis
      using body stop by simp
  qed
  show ?thesis using a b c d by blast
qed


text \<open>
  Into the corner: the first wall is recorded, the second locks the pass. A second wall
  turned by 7.6 degrees only does not lock it.
\<close>

theorem corner_lock_witness:
  "wallN1 (fst (sweep_body cornerWorld False cornerStart)) = Some (Vec3 1 0 0) \<and>
   wallN1 (fst (sweep_body cornerWorld False cornerSecond)) = Some (Vec3 1 0 0) \<and>
   remaining (fst (sweep_body cornerWorld False cornerSecond)) = Vec3 0 0 0 \<and>
   pos (sweep_loop cornerWorld False 4 cornerSecond) = Vec3 (- (3 / 10)) 0 (59 / 100) \<and>
   casts (sweep_loop cornerWorld False 4 cornerSecond) =
     [(Vec3 (- (3 / 10)) 0 (2 / 5), Vec3 (- (3 / 10)) 0 (4 / 5))] \<and>
   wallN2 (fst (sweep_body kinkWorld False cornerSecond)) = None \<and>
   remaining (fst (sweep_body kinkWorld False cornerSecond)) = Vec3 (1 / 100) 0 (1 / 5)"
proof -
  let ?hK = "\<lparr>entity = 2, hitFraction = 1 / 2, point = Vec3 (- (3 / 10)) 0 (2 / 5),
             normal = Vec3 (112 / 113) 0 (- (15 / 113))\<rparr>"
  have near: "wallN2 cornerSecond = None"
    "sphereCast kinkWorld (radius (kcc_of cornerSecond)) (pos cornerSecond)
       (Vec3_add (pos cornerSecond) (remaining cornerSecond)) = Some ?hK"
    "\<not> walkable (kcc_of cornerSecond) (normal ?hK)"
    "Vec3_dot (wallNormal (normal ?hK)) (Vec3 1 0 0) \<ge> 99 / 100"
    by (simp_all add: cornerSecond_def kinkWorld_def defaultKCC_def vec_defs walkable_def
        slopeDeg_horizontal wallNormal_kink)
  have slide: "Vec3_add
      (projectOnPlane (Vec3_mulScalar (remaining cornerSecond) (1 - hitFraction ?hK)) (Vec3 1 0 0))
      (Vec3_mulScalar (Vec3 1 0 0) (skin (kcc_of cornerSecond))) = Vec3 (1 / 100) 0 (1 / 5)"
    by (simp add: cornerSecond_def defaultKCC_def vec_defs Let_def)
  let ?hA = "\<lparr>entity = 1, hitFraction = 1 / 2, point = Vec3 0 0 0, normal = Vec3 1 0 0\<rparr>"
  let ?hB = "\<lparr>entity = 2, hitFraction = 1 / 2, point = Vec3 (- (3 / 10)) 0 (2 / 5),
             normal = Vec3 0 0 (- 1)\<rparr>"
  have first: "wallN1 cornerStart = None" "Vec3_lengthSq (remaining cornerStart) \<ge> EPS"
    "sphereCast cornerWorld (radius (kcc_of cornerStart)) (pos cornerStart)
       (Vec3_add (pos cornerStart) (remaining cornerStart)) = Some ?hA"
    "\<not> walkable (kcc_of cornerStart) (normal ?hA)"
    "wallNormal (normal ?hA) = Vec3 1 0 0"
    by (simp_all add: cornerStart_def cornerWorld_def defaultKCC_def vec_defs walkable_def
        slopeDeg_horizontal wallNormal_def Let_def Vec3_normalize_def)
  have second: "wallN1 cornerSecond = Some (Vec3 1 0 0)"
    "Vec3_lengthSq (remaining cornerSecond) \<ge> EPS"
    "sphereCast cornerWorld (radius (kcc_of cornerSecond)) (pos cornerSecond)
       (Vec3_add (pos cornerSecond) (remaining cornerSecond)) = Some ?hB"
    "\<not> walkable (kcc_of cornerSecond) (normal ?hB)"
    "Vec3_dot (wallNormal (normal ?hB)) (Vec3 1 0 0) < 99 / 100"
    by (simp_all add: cornerSecond_def cornerWorld_def defaultKCC_def vec_defs walkable_def
        slopeDeg_horizontal wallNormal_def Let_def Vec3_normalize_def)
  have vals: "stepTo (kcc_of cornerSecond) ?hB (Vec3 (- (3 / 10)) 0 (2 / 5)) (remaining cornerSecond) =
      Vec3 (- (3 / 10)) 0 (59 / 100)"
    "pos cornerSecond = Vec3 (- (3 / 10)) 0 (2 / 5)"
    "Vec3_add (Vec3 (- (3 / 10)) 0 (2 / 5)) (remaining cornerSecond) = Vec3 (- (3 / 10)) 0 (4 / 5)"
    "casts cornerSecond = []"
    by (simp_all add: cornerSecond_def defaultKCC_def stepTo_def stepDist_def hitDist_def
        vec_defs z_simps)
  have a: "wallN1 (fst (sweep_body cornerWorld False cornerStart)) = Some (Vec3 1 0 0)"
    using corner_lock [of cornerStart cornerWorld ?hA "Vec3 1 0 0" 3] first by simp
  have b: "wallN1 (fst (sweep_body cornerWorld False cornerSecond)) = Some (Vec3 1 0 0)"
    using corner_lock [of cornerSecond cornerWorld ?hB "Vec3 1 0 0" 3] second(1) by blast
  have c: "remaining (fst (sweep_body cornerWorld False cornerSecond)) = Vec3 0 0 0 \<and>
      pos (sweep_loop cornerWorld False (Suc 3) cornerSecond) =
        stepTo (kcc_of cornerSecond) ?hB (pos cornerSecond) (remaining cornerSecond) \<and>
      casts (sweep_loop cornerWorld False (Suc 3) cornerSecond) =
        casts cornerSecond @
          [(pos cornerSecond, Vec3_add (pos cornerSecond) (remaining cornerSecond))]"
    using corner_lock [of cornerSecond cornerWorld ?hB "Vec3 1 0 0" 3] second by blast
  have d: "wallN2 (fst (sweep_body kinkWorld False cornerSecond)) = None \<and>
      remaining (fst (sweep_body kinkWorld False cornerSecond)) = Vec3 (1 / 100) 0 (1 / 5)"
    using corner_lock [of cornerSecond kinkWorld ?hK "Vec3 1 0 0" 3] second(1,2) near
    unfolding slide by blast
  have four: "(4::nat) = Suc 3"
    by simp
  show ?thesis
    unfolding four using a b c d by (simp add: vals)
qed

text \<open>
  C4, as the spec states it, fails. Without skin, a pass meets the first wall, the second
  wall, the ramp and the third wall. The second and the third wall hit have flattened
  normals of dot product below 0.99 with each other, but each is within 0.99 of the first
  recorded one. Nothing is locked: after the third wall the remaining displacement is
  \<open>(0, 24/625, 481/6250)\<close>, a fifth cast is made, and the position moves on by it.
\<close>

theorem later_walls_counterexample:
  "sphereCast kinkWorld (1 / 2) (Vec3 (- (3 / 10)) 0 (2 / 5)) (Vec3 (- (3 / 10)) 0 (4 / 5)) =
     Some \<lparr>entity = 2, hitFraction = 1 / 2, point = Vec3 (- (3 / 10)) 0 (2 / 5),
           normal = Vec3 (112 / 113) 0 (- (15 / 113))\<rparr> \<and>
   sphereCast kinkWorld (1 / 2) (Vec3 (- (3 / 10)) 0 (7 / 10))
       (Vec3 (- (1983 / 6250)) (24 / 625) (2428 / 3125)) =
     Some \<lparr>entity = 3, hitFraction = 0, point = Vec3 (- (3 / 10)) 0 (7 / 10),
           normal = Vec3 (112 / 113) 0 (15 / 113)\<rparr> \<and>
   \<not> walkable kinkKCC (Vec3 (112 / 113) 0 (- (15 / 113))) \<and>
   \<not> walkable kinkKCC (Vec3 (112 / 113) 0 (15 / 113)) \<and>
   Vec3_dot (wallNormal (Vec3 (112 / 113) 0 (- (15 / 113))))
            (wallNormal (Vec3 (112 / 113) 0 (15 / 113))) < 99 / 100 \<and>
   casts (sweep kinkWorld kinkKCC (Vec3 0 0 0) (Vec3 (- (3 / 5)) 0 (4 / 5)) False) =
     [(Vec3 0 0 0, Vec3 (- (3 / 5)) 0 (4 / 5)),
      (Vec3 (- (3 / 10)) 0 (2 / 5), Vec3 (- (3 / 10)) 0 (4 / 5)),
      (Vec3 (- (3 / 10)) 0 (3 / 5), Vec3 (- (3 / 10)) 0 (4 / 5)),
      (Vec3 (- (3 / 10)) 0 (7 / 10), Vec3 (- (1983 / 6250)) (24 / 625) (2428 / 3125)),
      (Vec3 (- (3 / 10)) 0 (7 / 10), Vec3 (- (3 / 10)) (24 / 625) (2428 / 3125))] \<and>
   wallN2 (sweep kinkWorld kinkKCC (Vec3 0 0 0) (Vec3 (- (3 / 5)) 0 (4 / 5)) False) = None \<and>
   remaining (sweep kinkWorld kinkKCC (Vec3 0 0 0) (Vec3 (- (3 / 5)) 0 (4 / 5)) False) =
     Vec3 0 (24 / 625) (481 / 6250) \<and>
   pos (sweep kinkWorld kinkKCC (Vec3 0 0 0) (Vec3 (- (3 / 5)) 0 (4 / 5)) False) =
     Vec3 (- (3 / 10)) (24 / 625) (2428 / 3125)"
  by (simp add: pass_defs vec_defs Let_def kinkKCC_def defaultKCC_def kinkWorld_def
      slopeDeg_horizontal slopeDeg_ramp wallNormal_kink z_simps Vec3_length_nonneg
      eval_nat_numeral)

section \<open>Sliding along one wall\<close>

lemma Vec3_lengthSq_dot: "Vec3_lengthSq n = Vec3_dot n n"
  by (simp add: Vec3_lengthSq_def Vec3_dot_def)

lemma Vec3_dot_scaled:
  "Vec3_dot (Vec3 (vx a * c) (vy a * c) (vz a * c)) (Vec3 (vx a * c) (vy a * c) (vz a * c)) =
   Vec3_lengthSq a * (c * c)"
  by (simp add: Vec3_dot_def Vec3_lengthSq_def algebra_simps)

lemma Vec3_normalize_unit:
  assumes "Vec3_lengthSq a > 0"
  shows "Vec3_dot (Vec3_normalize a) (Vec3_normalize a) = 1"
proof -
  let ?L = "vx a * vx a + vy a * vy a + vz a * vz a"
  have L: "?L > 0" "Vec3_lengthSq a = ?L"
    using assms by (simp_all add: Vec3_lengthSq_def)
  have s: "(1 / sqrt ?L) * (1 / sqrt ?L) = 1 / ?L"
    using L(1) by simp
  have "Vec3_dot (Vec3_normalize a) (Vec3_normalize a) = Vec3_lengthSq a * ((1 / sqrt ?L) * (1 / sqrt ?L))"
    using L(1) Vec3_dot_scaled [of a "1 / sqrt ?L"]
    by (simp add: Vec3_normalize_def Let_def)
  then show ?thesis
    using L by (simp only: s) simp
qed

lemma wallNormal_unit:
  assumes "Vec3_lengthSq (Vec3 (vx n) 0 (vz n)) > EPS"
  shows "Vec3_dot (wallNormal n) (wallNormal n) = 1"
proof -
  have "Vec3_lengthSq (Vec3 (vx n) 0 (vz n)) > 0"
    using assms EPS_pos by linarith
  then show ?thesis
    using assms Vec3_normalize_unit [of "Vec3 (vx n) 0 (vz n)"]
    by (simp add: wallNormal_def Let_def)
qed

lemma Vec3_dot_minus_scaled:
  "Vec3_dot (Vec3 (vx v - vx n * d) (vy v - vy n * d) (vz v - vz n * d)) t =
   Vec3_dot v t - d * Vec3_dot n t"
  by (simp add: Vec3_dot_def algebra_simps)

lemma Vec3_dot_minus_divided:
  "Vec3_dot (Vec3 (vx v - vx n * a / m) (vy v - vy n * a / m) (vz v - vz n * a / m)) t =
   Vec3_dot v t - a / m * Vec3_dot n t"
  using Vec3_dot_minus_scaled [of v n "a / m" t] by simp

lemma projectOnPlane_dot_normal:
  assumes "Vec3_lengthSq n \<ge> EPS"
  shows "Vec3_dot (projectOnPlane v n) n = 0"
proof -
  have m: "Vec3_dot n n \<noteq> 0" "\<not> Vec3_lengthSq n < EPS"
    using assms EPS_pos by (simp_all add: Vec3_lengthSq_dot)
  show ?thesis
    using m by (simp add: projectOnPlane_def Let_def Vec3_dot_minus_divided Vec3_lengthSq_dot)
qed

lemma projectOnPlane_dot_tangent:
  assumes "Vec3_dot n t = 0"
  shows "Vec3_dot (projectOnPlane v n) t = Vec3_dot v t"
  using assms by (simp add: projectOnPlane_def Let_def Vec3_dot_minus_divided)

lemma Vec3_dot_add: "Vec3_dot (Vec3_add a b) t = Vec3_dot a t + Vec3_dot b t"
  by (simp add: Vec3_dot_def Vec3_add_def algebra_simps)

lemma Vec3_dot_mulScalar: "Vec3_dot (Vec3_mulScalar a c) t = c * Vec3_dot a t"
  by (simp add: Vec3_dot_def Vec3_mulScalar_def algebra_simps)

text \<open>
  Without skin, the step to the contact is the hit fraction of the displacement.
\<close>

lemma stepTo_no_skin:
  assumes skin: "skin kcc = 0"
    and hf: "0 \<le> hitFraction h" "hitFraction h \<le> 1"
    and far: "hitFraction h * Vec3_length d > EPS"
  shows "stepTo kcc h p d = Vec3_add p (Vec3_mulScalar d (hitFraction h))"
proof -
  let ?L = "Vec3_length d"
  let ?S = "vx d * vx d + vy d * vy d + vz d * vz d"
  have L0: "0 \<le> ?L"
    by (rule Vec3_length_nonneg)
  have Lpos: "0 < ?L"
  proof (rule ccontr)
    assume "\<not> 0 < ?L"
    then have "?L = 0" using L0 by simp
    then show False using far EPS_pos by simp
  qed
  have LS: "?L = sqrt ?S"
    by (simp add: Vec3_length_def)
  have S: "0 < ?S"
    using Lpos LS by (simp only: real_sqrt_gt_0_iff)
  have le: "hitFraction h * ?L \<le> ?L"
    using mult_right_mono [OF hf(2) L0] by simp
  have ge: "0 \<le> hitFraction h * ?L"
    using hf(1) L0 by simp
  have hd: "hitDist h d = hitFraction h * ?L"
    using le ge by (simp add: hitDist_def clamp_def)
  have sd: "stepDist kcc h d = hitFraction h * ?L"
    using ge by (simp add: stepDist_def hd skin)
  have norm: "Vec3_normalize d = Vec3 (vx d * (1 / ?L)) (vy d * (1 / ?L)) (vz d * (1 / ?L))"
    using S by (simp add: Vec3_normalize_def Let_def LS)
  show ?thesis
    using far Lpos by (simp add: stepTo_def sd norm Vec3_mulScalar_def)
qed

text \<open>
  C3, as the code has it. A horizontal pass that is allowed at least one iteration, with
  an input \<open>d\<close> of squared length at least \<open>EPS\<close> whose query hits a wall (not walkable,
  flattened normal \<open>n\<close> not degenerate), first approaches the contact along the input
  direction, to \<open>p1\<close>, and leaves as the remaining displacement the slide \<open>r1\<close>: the rest
  of the input, scaled by \<open>1 - hitFraction\<close> and projected onto the plane of the unit
  normal \<open>n\<close>, plus the skin push-out along \<open>n\<close>. The slide's component along \<open>n\<close> is the
  skin margin (zero only without skin), and its component along any tangent \<open>t\<close> is
  \<open>1 - hitFraction\<close> times the input's, so it is not zero when the input has a part along
  \<open>t\<close> and the hit fraction is not 1. The slide is travelled, and the pass returns
  \<open>p1 + r1\<close>, when a second iteration is allowed, the slide's squared length is at least
  \<open>EPS\<close> and its query reports no hit. With a single iteration allowed, or a slide of
  squared length below \<open>EPS\<close>, the slide is dropped and the pass returns the contact
  position \<open>p1\<close> after its one query.
\<close>

theorem single_wall_slide:
  assumes its: "0 < maxIterations kcc"
    and big: "Vec3_lengthSq d \<ge> EPS"
    and hit: "sphereCast w (radius kcc) p (Vec3_add p d) = Some h"
    and steep: "\<not> walkable kcc (normal h)"
    and flat: "Vec3_lengthSq (Vec3 (vx (normal h)) 0 (vz (normal h))) > EPS"
    and n: "n = wallNormal (normal h)"
    and p1: "p1 = stepTo kcc h p d"
    and r1: "r1 = Vec3_add (projectOnPlane (Vec3_mulScalar d (1 - hitFraction h)) n)
                          (Vec3_mulScalar n (skin kcc))"
  shows "pos (sweep_loop w False 1
                \<lparr>kcc_of = kcc, pos = p, remaining = d, wallN1 = None, wallN2 = None,
                 casts = []\<rparr>) = p1 \<and>
         remaining (sweep_loop w False 1
                \<lparr>kcc_of = kcc, pos = p, remaining = d, wallN1 = None, wallN2 = None,
                 casts = []\<rparr>) = r1 \<and>
         Vec3_dot n n = 1 \<and>
         Vec3_dot r1 n = skin kcc \<and>
         (\<forall>t. Vec3_dot n t = 0 \<longrightarrow> Vec3_dot r1 t = (1 - hitFraction h) * Vec3_dot d t) \<and>
         (1 < maxIterations kcc \<and> Vec3_lengthSq r1 \<ge> EPS \<and>
          sphereCast w (radius kcc) p1 (Vec3_add p1 r1) = None \<longrightarrow>
            pos (sweep w kcc p d False) = Vec3_add p1 r1 \<and>
            casts (sweep w kcc p d False) = [(p, Vec3_add p d), (p1, Vec3_add p1 r1)]) \<and>
         (maxIterations kcc = 1 \<longrightarrow>
            pos (sweep w kcc p d False) = p1 \<and>
            casts (sweep w kcc p d False) = [(p, Vec3_add p d)]) \<and>
         (Vec3_lengthSq r1 < EPS \<longrightarrow>
            pos (sweep w kcc p d False) = p1 \<and>
            casts (sweep w kcc p d False) = [(p, Vec3_add p d)])"
proof -
  let ?st0 = "\<lparr>kcc_of = kcc, pos = p, remaining = d, wallN1 = None, wallN2 = None, casts = []\<rparr>"
  let ?st1 = "\<lparr>kcc_of = kcc, pos = p1, remaining = r1, wallN1 = Some n, wallN2 = None,
              casts = [(p, Vec3_add p d)]\<rparr>"
  obtain m where m: "maxIterations kcc = Suc m"
    using its by (cases "maxIterations kcc") simp_all
  have unit: "Vec3_dot n n = 1"
    using wallNormal_unit [OF flat] n by simp
  have b0: "sweep_body w False ?st0 = (?st1, Continue)"
    using sweep_body_hit [of ?st0 w h False] big hit steep
    by (simp add: horizontalHit_def Let_def n p1 r1)
  have first: "sweep_loop w False 1 ?st0 = ?st1"
    by (simp add: b0)
  have run: "sweep w kcc p d False = sweep_loop w False m ?st1"
    by (simp add: sweep_def m b0)
  have nb: "Vec3_lengthSq n \<ge> EPS"
    using unit by (simp add: Vec3_lengthSq_dot EPS_def)
  have normal: "Vec3_dot r1 n = skin kcc"
    using projectOnPlane_dot_normal [OF nb] unit
    by (simp add: r1 Vec3_dot_add Vec3_dot_mulScalar)
  have tangent: "Vec3_dot r1 t = (1 - hitFraction h) * Vec3_dot d t" if "Vec3_dot n t = 0" for t
    using projectOnPlane_dot_tangent [OF that] that
    by (simp add: r1 Vec3_dot_add Vec3_dot_mulScalar)
  have slide: "sweep w kcc p d False =
      ?st1\<lparr>casts := [(p, Vec3_add p d), (p1, Vec3_add p1 r1)], pos := Vec3_add p1 r1\<rparr>"
    if two: "1 < maxIterations kcc" and big1: "Vec3_lengthSq r1 \<ge> EPS"
      and miss: "sphereCast w (radius kcc) p1 (Vec3_add p1 r1) = None"
  proof -
    obtain m' where m': "m = Suc m'"
      using two m by (cases m) simp_all
    have b1: "sweep_body w False ?st1 =
        (?st1\<lparr>casts := [(p, Vec3_add p d), (p1, Vec3_add p1 r1)], pos := Vec3_add p1 r1\<rparr>, Break)"
      using sweep_body_miss [of ?st1 w False] big1 miss by simp
    show ?thesis
      by (simp add: run m' b1)
  qed
  have one: "sweep w kcc p d False = ?st1" if "maxIterations kcc = 1"
    using that m by (simp add: run)
  have tiny: "sweep w kcc p d False = ?st1" if "Vec3_lengthSq r1 < EPS"
    using sweep_loop_converged [of ?st1 w False m] that by (simp add: run)
  show ?thesis
    using first unit normal tangent slide one tiny by simp
qed


text \<open>
  Into the wall at \<open>x = -4/5\<close> at an angle: with the default skin of 0.01 and five
  iterations, where the slide is travelled; with a single iteration, where the pass stops
  at the contact; and without skin along an input that is nearly head-on, where the slide
  \<open>(0, 0, 1/40000)\<close> is shorter than the threshold and is dropped.
\<close>

theorem single_wall_slide_witness:
  "pos (sweep wallWorld defaultKCC (Vec3 0 0 0) (Vec3 (- (3 / 5)) 0 (4 / 5)) False) =
     Vec3 (- (71 / 250)) 0 (99 / 125) \<and>
   casts (sweep wallWorld defaultKCC (Vec3 0 0 0) (Vec3 (- (3 / 5)) 0 (4 / 5)) False) =
     [(Vec3 0 0 0, Vec3 (- (3 / 5)) 0 (4 / 5)),
      (Vec3 (- (147 / 500)) 0 (49 / 125), Vec3 (- (71 / 250)) 0 (99 / 125))] \<and>
   Vec3_dot (Vec3 (1 / 100) 0 (2 / 5)) (Vec3 1 0 0) = 1 / 100 \<and>
   Vec3_dot (Vec3 (1 / 100) 0 (2 / 5)) (Vec3 0 0 1) =
     (1 - 1 / 2) * Vec3_dot (Vec3 (- (3 / 5)) 0 (4 / 5)) (Vec3 0 0 1) \<and>
   pos (sweep wallWorld oneIterKCC (Vec3 0 0 0) (Vec3 (- (3 / 5)) 0 (4 / 5)) False) =
     Vec3 (- (147 / 500)) 0 (49 / 125) \<and>
   casts (sweep wallWorld oneIterKCC (Vec3 0 0 0) (Vec3 (- (3 / 5)) 0 (4 / 5)) False) =
     [(Vec3 0 0 0, Vec3 (- (3 / 5)) 0 (4 / 5))] \<and>
   pos (sweep wallWorld kinkKCC (Vec3 0 0 0) (Vec3 (- (3 / 5)) 0 (1 / 20000)) False) =
     Vec3 (- (3 / 10)) 0 (1 / 40000) \<and>
   casts (sweep wallWorld kinkKCC (Vec3 0 0 0) (Vec3 (- (3 / 5)) 0 (1 / 20000)) False) =
     [(Vec3 0 0 0, Vec3 (- (3 / 5)) 0 (1 / 20000))]"
proof -
  let ?h = "\<lparr>entity = 1, hitFraction = 1 / 2, point = Vec3 (- (4 / 5)) 0 0,
            normal = Vec3 1 0 0\<rparr>"
  let ?d = "Vec3 (- (3 / 5)) 0 (4 / 5)"
  let ?p1 = "Vec3 (- (147 / 500)) 0 (49 / 125)"
  let ?r1 = "Vec3 (1 / 100) 0 (2 / 5)"
  let ?e = "Vec3 (- (3 / 5)) 0 (1 / 20000)"
  let ?q1 = "Vec3 (- (3 / 10)) 0 (1 / 40000)"
  let ?s1 = "Vec3 0 0 (1 / 40000)"
  have its: "0 < maxIterations defaultKCC" "0 < maxIterations oneIterKCC"
    "0 < maxIterations kinkKCC"
    by (simp_all add: defaultKCC_def oneIterKCC_def kinkKCC_def)
  have big: "Vec3_lengthSq ?d \<ge> EPS" "Vec3_lengthSq ?e \<ge> EPS"
    by (simp_all add: vec_defs)
  have hit: "sphereCast wallWorld (radius defaultKCC) (Vec3 0 0 0) (Vec3_add (Vec3 0 0 0) ?d) = Some ?h"
    "sphereCast wallWorld (radius oneIterKCC) (Vec3 0 0 0) (Vec3_add (Vec3 0 0 0) ?d) = Some ?h"
    "sphereCast wallWorld (radius kinkKCC) (Vec3 0 0 0) (Vec3_add (Vec3 0 0 0) ?e) = Some ?h"
    by (simp_all add: wallWorld_def wallCast_def defaultKCC_def oneIterKCC_def kinkKCC_def vec_defs)
  have steep: "\<not> walkable defaultKCC (normal ?h)" "\<not> walkable oneIterKCC (normal ?h)"
    "\<not> walkable kinkKCC (normal ?h)"
    by (simp_all add: walkable_def slopeDeg_horizontal defaultKCC_def oneIterKCC_def kinkKCC_def)
  have flat: "Vec3_lengthSq (Vec3 (vx (normal ?h)) 0 (vz (normal ?h))) > EPS"
    by (simp add: vec_defs)
  have n: "Vec3 1 0 0 = wallNormal (normal ?h)"
    by (simp add: wallNormal_x)
  have p1: "?p1 = stepTo defaultKCC ?h (Vec3 0 0 0) ?d" "?p1 = stepTo oneIterKCC ?h (Vec3 0 0 0) ?d"
    by (simp_all add: stepTo_def stepDist_def hitDist_def vec_defs z_simps defaultKCC_def
        oneIterKCC_def)
  have "3 / 5 \<le> Vec3_length ?e"
    unfolding Vec3_length_def by (rule real_le_rsqrt) (simp add: power2_eq_square)
  then have far: "hitFraction ?h * Vec3_length ?e > EPS"
    by (simp add: EPS_def)
  have q1: "?q1 = stepTo kinkKCC ?h (Vec3 0 0 0) ?e"
    using stepTo_no_skin [of kinkKCC ?h ?e "Vec3 0 0 0"] far
    by (simp add: kinkKCC_def defaultKCC_def Vec3_add_def Vec3_mulScalar_def)
  have r1: "?r1 = Vec3_add (projectOnPlane (Vec3_mulScalar ?d (1 - hitFraction ?h)) (Vec3 1 0 0))
                          (Vec3_mulScalar (Vec3 1 0 0) (skin defaultKCC))"
    "?r1 = Vec3_add (projectOnPlane (Vec3_mulScalar ?d (1 - hitFraction ?h)) (Vec3 1 0 0))
                          (Vec3_mulScalar (Vec3 1 0 0) (skin oneIterKCC))"
    "?s1 = Vec3_add (projectOnPlane (Vec3_mulScalar ?e (1 - hitFraction ?h)) (Vec3 1 0 0))
                          (Vec3_mulScalar (Vec3 1 0 0) (skin kinkKCC))"
    by (simp_all add: vec_defs Let_def defaultKCC_def oneIterKCC_def kinkKCC_def)
  have two: "1 < maxIterations defaultKCC"
    by (simp add: defaultKCC_def)
  have big1: "Vec3_lengthSq ?r1 \<ge> EPS"
    by (simp add: vec_defs)
  have miss: "sphereCast wallWorld (radius defaultKCC) ?p1 (Vec3_add ?p1 ?r1) = None"
    by (simp add: wallWorld_def wallCast_def defaultKCC_def vec_defs)
  have one: "maxIterations oneIterKCC = 1"
    by (simp add: oneIterKCC_def)
  have tiny: "Vec3_lengthSq ?s1 < EPS"
    by (simp add: vec_defs)
  have tang: "Vec3_dot (Vec3 1 0 0) (Vec3 0 0 1) = 0"
    by (simp add: Vec3_dot_def)
  have vals: "Vec3_add ?p1 ?r1 = Vec3 (- (71 / 250)) 0 (99 / 125)"
    "Vec3_add (Vec3 0 0 0) ?d = ?d" "Vec3_add (Vec3 0 0 0) ?e = ?e"
    "skin defaultKCC = 1 / 100" "hitFraction ?h = 1 / 2"
    by (simp_all add: Vec3_add_def defaultKCC_def)
  have a: "pos (sweep wallWorld defaultKCC (Vec3 0 0 0) ?d False) = Vec3_add ?p1 ?r1 \<and>
      casts (sweep wallWorld defaultKCC (Vec3 0 0 0) ?d False) =
        [(Vec3 0 0 0, Vec3_add (Vec3 0 0 0) ?d), (?p1, Vec3_add ?p1 ?r1)] \<and>
      Vec3_dot ?r1 (Vec3 1 0 0) = skin defaultKCC \<and>
      Vec3_dot ?r1 (Vec3 0 0 1) = (1 - hitFraction ?h) * Vec3_dot ?d (Vec3 0 0 1)"
    using single_wall_slide [OF its(1) big(1) hit(1) steep(1) flat n p1(1) r1(1)]
      two big1 miss tang by blast
  have b: "pos (sweep wallWorld oneIterKCC (Vec3 0 0 0) ?d False) = ?p1 \<and>
      casts (sweep wallWorld oneIterKCC (Vec3 0 0 0) ?d False) =
        [(Vec3 0 0 0, Vec3_add (Vec3 0 0 0) ?d)]"
    using single_wall_slide [OF its(2) big(1) hit(2) steep(2) flat n p1(2) r1(2)] one
    by blast
  have c: "pos (sweep wallWorld kinkKCC (Vec3 0 0 0) ?e False) = ?q1 \<and>
      casts (sweep wallWorld kinkKCC (Vec3 0 0 0) ?e False) =
        [(Vec3 0 0 0, Vec3_add (Vec3 0 0 0) ?e)]"
    using single_wall_slide [OF its(3) big(2) hit(3) steep(3) flat n q1 r1(3)] tiny
    by blast
  show ?thesis
    using a b c by (simp only: vals)
qed


text \<open>
  C3, as the spec states it, fails on the same run: there is exactly one wall contact,
  with flattened normal \<open>(1, 0, 0)\<close>, and the resolved displacement has the component
  \<open>-71/250\<close> along it (the approach towards the wall, less the skin).
\<close>

theorem single_wall_normal_counterexample:
  "sphereCast wallWorld (1 / 2) (Vec3 0 0 0) (Vec3 (- (3 / 5)) 0 (4 / 5)) =
     Some \<lparr>entity = 1, hitFraction = 1 / 2, point = Vec3 (- (4 / 5)) 0 0,
           normal = Vec3 1 0 0\<rparr> \<and>
   \<not> walkable defaultKCC (Vec3 1 0 0) \<and>
   wallNormal (Vec3 1 0 0) = Vec3 1 0 0 \<and>
   sphereCast wallWorld (1 / 2) (Vec3 (- (147 / 500)) 0 (49 / 125))
     (Vec3 (- (71 / 250)) 0 (99 / 125)) = None \<and>
   casts (sweep wallWorld defaultKCC (Vec3 0 0 0) (Vec3 (- (3 / 5)) 0 (4 / 5)) False) =
     [(Vec3 0 0 0, Vec3 (- (3 / 5)) 0 (4 / 5)),
      (Vec3 (- (147 / 500)) 0 (49 / 125), Vec3 (- (71 / 250)) 0 (99 / 125))] \<and>
   Vec3_dot (Vec3_sub (pos (sweep wallWorld defaultKCC (Vec3 0 0 0)
                              (Vec3 (- (3 / 5)) 0 (4 / 5)) False))
                      (Vec3 0 0 0))
            (Vec3 1 0 0) = - (71 / 250)"
  by (simp add: pass_defs vec_defs Let_def defaultKCC_def wallWorld_def wallCast_def
      slopeDeg_horizontal wallNormal_x z_simps eval_nat_numeral)


section \<open>Slope classification\<close>

lemma verticalHit_grounded:
  "vy (remaining st) < 0 \<Longrightarrow> \<not> grounded (kcc_of st) \<Longrightarrow>
   grounded (kcc_of (fst (verticalHit h st))) = walkable (kcc_of st) (normal h)"
  by (simp add: verticalHit_def Let_def)

lemma horizontalHit_grounded:
  "\<not> grounded (kcc_of st) \<Longrightarrow>
   grounded (kcc_of (fst (horizontalHit h st))) = walkable (kcc_of st) (normal h)"
  by (simp add: horizontalHit_def Let_def split: option.splits)

text \<open>
  C8. A contact normal is walkable exactly when its angle from up, in degrees, is strictly
  below the slope limit: at the limit and above it the contact is not walkable. Both
  passes classify by it: a hit of the downward vertical pass, or of the horizontal pass,
  grounds the controller exactly when the angle is strictly below the limit.
\<close>

theorem slope_classification_strict:
  "(walkable kcc n \<longleftrightarrow>
      arccos (clamp (Vec3_dot n UP) (- 1) 1) * 180 / pi < slopeLimitDeg kcc) \<and>
   (arccos (clamp (Vec3_dot n UP) (- 1) 1) * 180 / pi = slopeLimitDeg kcc \<longrightarrow>
      \<not> walkable kcc n) \<and>
   (arccos (clamp (Vec3_dot n UP) (- 1) 1) * 180 / pi > slopeLimitDeg kcc \<longrightarrow>
      \<not> walkable kcc n) \<and>
   (Vec3_lengthSq (remaining st) \<ge> EPS \<and>
    sphereCast w (radius (kcc_of st)) (pos st) (Vec3_add (pos st) (remaining st)) = Some h \<and>
    \<not> grounded (kcc_of st) \<longrightarrow>
      (vy (remaining st) < 0 \<longrightarrow>
         (grounded (kcc_of (fst (sweep_body w True st))) \<longleftrightarrow>
            arccos (clamp (Vec3_dot (normal h) UP) (- 1) 1) * 180 / pi
              < slopeLimitDeg (kcc_of st))) \<and>
      (grounded (kcc_of (fst (sweep_body w False st))) \<longleftrightarrow>
         arccos (clamp (Vec3_dot (normal h) UP) (- 1) 1) * 180 / pi
           < slopeLimitDeg (kcc_of st)))"
proof -
  have w: "walkable k m = (arccos (clamp (Vec3_dot m UP) (- 1) 1) * 180 / pi < slopeLimitDeg k)"
    for k m
    by (simp add: walkable_def slopeDeg_def cosTheta_def)
  have a: "grounded (kcc_of (fst (sweep_body w True st))) = walkable (kcc_of st) (normal h)"
    if "Vec3_lengthSq (remaining st) \<ge> EPS"
      and "sphereCast w (radius (kcc_of st)) (pos st) (Vec3_add (pos st) (remaining st)) = Some h"
      and "\<not> grounded (kcc_of st)" and "vy (remaining st) < 0"
    using that by (simp add: sweep_body_hit verticalHit_grounded)
  have b: "grounded (kcc_of (fst (sweep_body w False st))) = walkable (kcc_of st) (normal h)"
    if "Vec3_lengthSq (remaining st) \<ge> EPS"
      and "sphereCast w (radius (kcc_of st)) (pos st) (Vec3_add (pos st) (remaining st)) = Some h"
      and "\<not> grounded (kcc_of st)"
    using that by (simp add: sweep_body_hit horizontalHit_grounded)
  show ?thesis
    using a b by (auto simp add: w)
qed


text \<open>
  Flat ground is walkable for the default limit of 50; a unit normal at exactly 60 degrees
  is not walkable for a limit of 60; a wall is not walkable; and both passes land on the
  floor.
\<close>

theorem slope_classification_witness:
  "walkable defaultKCC (Vec3 0 1 0) \<and>
   arccos (clamp (Vec3_dot (Vec3 (sqrt 3 / 2) (1 / 2) 0) UP) (- 1) 1) * 180 / pi =
     slopeLimitDeg slope60KCC \<and>
   \<not> walkable slope60KCC (Vec3 (sqrt 3 / 2) (1 / 2) 0) \<and>
   arccos (clamp (Vec3_dot (Vec3 1 0 0) UP) (- 1) 1) * 180 / pi > slopeLimitDeg defaultKCC \<and>
   \<not> walkable defaultKCC (Vec3 1 0 0) \<and>
   grounded (kcc_of (fst (sweep_body floorWorld True landingStart))) \<and>
   grounded (kcc_of (fst (sweep_body floorWorld False landingStart)))"
proof -
  let ?h = "\<lparr>entity = 1, hitFraction = 0, point = Vec3 0 0 0, normal = Vec3 0 1 0\<rparr>"
  have flat: "arccos (clamp (Vec3_dot (Vec3 0 1 0) UP) (- 1) 1) * 180 / pi < slopeLimitDeg defaultKCC"
    by (simp add: vec_defs defaultKCC_def)
  have edge: "arccos (clamp (Vec3_dot (Vec3 (sqrt 3 / 2) (1 / 2) 0) UP) (- 1) 1) * 180 / pi =
      slopeLimitDeg slope60KCC"
    by (simp add: vec_defs slope60KCC_def)
  have wall: "arccos (clamp (Vec3_dot (Vec3 1 0 0) UP) (- 1) 1) * 180 / pi > slopeLimitDeg defaultKCC"
    by (simp add: vec_defs defaultKCC_def)
  have pre: "Vec3_lengthSq (remaining landingStart) \<ge> EPS"
    "sphereCast floorWorld (radius (kcc_of landingStart)) (pos landingStart)
       (Vec3_add (pos landingStart) (remaining landingStart)) = Some ?h"
    "\<not> grounded (kcc_of landingStart)" "vy (remaining landingStart) < 0"
    "arccos (clamp (Vec3_dot (normal ?h) UP) (- 1) 1) * 180 / pi
       < slopeLimitDeg (kcc_of landingStart)"
    by (simp_all add: landingStart_def scene_defs vec_defs)
  show ?thesis
    using slope_classification_strict [of defaultKCC "Vec3 0 1 0" landingStart floorWorld ?h]
      slope_classification_strict [of slope60KCC "Vec3 (sqrt 3 / 2) (1 / 2) 0" landingStart
        floorWorld ?h]
      slope_classification_strict [of defaultKCC "Vec3 1 0 0" landingStart floorWorld ?h]
      flat edge wall pre
    by blast
qed


section \<open>The steep-slope normal\<close>

lemma update_steepNormal: "steepNormal (update w dt k) = None"
  by (simp add: update_def update_tick_def finishTick_input groundSnapStep_def movePasses_def
      Let_def split: option.splits)

text \<open>
  C1 fails on the code. A tick of 0.1 s above the steep face: the vertical pass records
  the face's normal, but \<open>update\<close> clears the steep normal right after the passes, so the
  controller leaves the tick without it. In the next tick the input towards the slope
  asks for the displacement \<open>(-3/5, 0, 0)\<close>, and the clamp at step 6 returns it
  unchanged; with the normal remembered it would have taken the uphill part out.
\<close>

theorem steep_normal_cleared_before_next_tick:
  "steepNormal (self (verticalPass steepWorld (- (981 / 10000))
      \<lparr>self = aboveSteepKCC\<lparr>velY := - (981 / 1000)\<rparr>, tpos = Vec3 0 1 0, tcasts = []\<rparr>)) =
     Some (Vec3 (24 / 25) (7 / 25) 0) \<and>
   steepNormal (update steepWorld (1 / 10) aboveSteepKCC) = None \<and>
   desiredHoriz (1 / 10)
     (jump (followGround steepWorld (applyYaw
        (setInput (- 1) 0 False 0 (update steepWorld (1 / 10) aboveSteepKCC))))) =
     Vec3 (- (3 / 5)) 0 0 \<and>
   clampUphill (setInput (- 1) 0 False 0 (update steepWorld (1 / 10) aboveSteepKCC))
     (Vec3 (- (3 / 5)) 0 0) = Vec3 (- (3 / 5)) 0 0 \<and>
   clampUphill
     ((setInput (- 1) 0 False 0 (update steepWorld (1 / 10) aboveSteepKCC))
        \<lparr>steepNormal := Some (Vec3 (24 / 25) (7 / 25) 0)\<rparr>)
     (Vec3 (- (3 / 5)) 0 0) = Vec3 (- (1728 / 3125)) (- (504 / 3125)) 0"
proof -
  have a: "steepNormal (self (verticalPass steepWorld (- (981 / 10000))
      \<lparr>self = aboveSteepKCC\<lparr>velY := - (981 / 1000)\<rparr>, tpos = Vec3 0 1 0, tcasts = []\<rparr>)) =
     Some (Vec3 (24 / 25) (7 / 25) 0)"
    by (simp add: verticalPass_def pass_defs vec_defs Let_def aboveSteepKCC_def defaultKCC_def
        steepWorld_def vertical_simps slopeDeg_steep cosTheta_def sqrt_576_625
        normalize_downhill eval_nat_numeral)
  have b: "steepNormal (update steepWorld (1 / 10) aboveSteepKCC) = None"
    by (rule update_steepNormal)
  have u: "update steepWorld (1 / 10) aboveSteepKCC =
      aboveSteepKCC\<lparr>velY := - (981 / 1000),
                      entityPos := Vec3 (35601 / 1562500) (11481819 / 12500000) 0\<rparr>"
    by (simp add: tick_defs pass_defs vec_defs Let_def aboveSteepKCC_def defaultKCC_def
        steepWorld_def vertical_simps slopeDeg_steep cosTheta_def sqrt_576_625
        normalize_downhill eval_nat_numeral)
  have c: "desiredHoriz (1 / 10)
     (jump (followGround steepWorld (applyYaw
        (setInput (- 1) 0 False 0 (update steepWorld (1 / 10) aboveSteepKCC))))) =
     Vec3 (- (3 / 5)) 0 0"
    unfolding u
    by (simp add: desiredHoriz_def horizDir_def entityForward_def entityRight_def jump_def
        followGround_def applyYaw_def setInput_def Quat_transformVector_def vec_defs Let_def
        aboveSteepKCC_def defaultKCC_def Vec3_normalize_x)
  have d: "clampUphill (setInput (- 1) 0 False 0 (update steepWorld (1 / 10) aboveSteepKCC))
     (Vec3 (- (3 / 5)) 0 0) = Vec3 (- (3 / 5)) 0 0"
    by (simp add: clampUphill_def setInput_def update_steepNormal)
  have e: "clampUphill
     ((setInput (- 1) 0 False 0 (update steepWorld (1 / 10) aboveSteepKCC))
        \<lparr>steepNormal := Some (Vec3 (24 / 25) (7 / 25) 0)\<rparr>)
     (Vec3 (- (3 / 5)) 0 0) = Vec3 (- (1728 / 3125)) (- (504 / 3125)) 0"
    by (simp add: clampUphill_def vec_defs Let_def normalize_uphill)
  show ?thesis
    using a b c d e by simp
qed


section \<open>Following a moving platform\<close>

lemma half_yaw:
  "cos (arcsin (24 / 25) / 2) = 4 / 5" "sin (arcsin (24 / 25) / 2) = 3 / 5"
proof -
  let ?a = "arcsin (24 / 25 :: real)"
  have s: "sin ?a = 24 / 25"
    by simp
  have "sqrt (49 / 625 :: real) = 7 / 25"
    by (rule real_sqrt_unique) (simp_all add: power2_eq_square)
  then have c: "cos ?a = 7 / 25"
    by (simp add: cos_arcsin power2_eq_square)
  have b: "- (pi / 2) \<le> ?a" "?a \<le> pi / 2"
    using arcsin_bounded [of "24 / 25"] by simp_all
  have pos: "0 < cos (?a / 2)"
    using b pi_gt_zero by (intro cos_gt_zero_pi) linarith+
  have "cos ?a = 2 * (cos (?a / 2))\<^sup>2 - 1"
    using cos_double_cos [of "?a / 2"] by simp
  then have "(cos (?a / 2))\<^sup>2 = (4 / 5)\<^sup>2"
    using c by (simp add: power2_eq_square)
  then show c2: "cos (?a / 2) = 4 / 5"
    using pos by (simp add: power2_eq_iff)
  have "sin ?a = 2 * sin (?a / 2) * cos (?a / 2)"
    using sin_double [of "?a / 2"] by simp
  then show "sin (?a / 2) = 3 / 5"
    using s c2 by simp
qed

lemma yaw_quat_xz: "qx (yawOnly q) = 0 \<and> qz (yawOnly q) = 0"
  by (simp add: yawOnly_def Quat_setFromEulerAngles_def Let_def)

lemma yaw_quat_unit: "qy (yawOnly q) * qy (yawOnly q) + qw (yawOnly q) * qw (yawOnly q) = 1"
proof -
  have "sin t * sin t + cos t * cos t = 1" for t :: real
    using sin_cos_squared_add [of t] by (simp add: power2_eq_square)
  then show ?thesis
    by (simp add: yawOnly_def Quat_setFromEulerAngles_def Let_def)
qed

lemma yaw_keeps_height: "vy (Quat_transformVector (yawOnly q) v) = vy v"
proof -
  have x: "qx (yawOnly q) = 0" "qz (yawOnly q) = 0"
    using yaw_quat_xz by simp_all
  have "vy (Quat_transformVector (yawOnly q) v) =
        vy v * (qy (yawOnly q) * qy (yawOnly q) + qw (yawOnly q) * qw (yawOnly q))"
    by (simp add: Quat_transformVector_def Let_def x algebra_simps)
  then show ?thesis
    by (simp add: yaw_quat_unit)
qed

text \<open>
  The controller of kcc.mjs re-bases a grounded rider on the platform's new position with
  the yaw-only rotation of the offset, turns the rider by the same rotation, and keeps the
  rider's height over the pivot.
\<close>

lemma followGround_yaw_only:
  assumes "wasGrounded k" and "groundEntity k = Some g"
  shows "entityPos (followGround w k) =
           Vec3_add (getPosition w g)
             (Quat_transformVector
                (yawOnly (Quat_mul (getRotation w g) (Quat_invert (groundPrevRot k))))
                (Vec3_sub (entityPos k) (groundPrevPos k)))"
    and "entityRot (followGround w k) =
           Quat_mul (yawOnly (Quat_mul (getRotation w g) (Quat_invert (groundPrevRot k))))
             (entityRot k)"
    and "vy (entityPos (followGround w k)) =
           vy (getPosition w g) + (vy (entityPos k) - vy (groundPrevPos k))"
  using assms by (simp_all add: followGround_def Let_def yaw_keeps_height Vec3_add_def Vec3_sub_def)

lemma tilt_is_yaw_then_pitch:
  "Quat_mul (Quat 0 (3 / 5) 0 (4 / 5)) (Quat (3 / 5) 0 0 (4 / 5)) =
   Quat (12 / 25) (12 / 25) (- (9 / 25)) (16 / 25)"
  by (simp add: Quat_mul_def)

lemma invert_identity: "Quat_invert (Quat 0 0 0 1) = Quat 0 0 0 1"
  by (simp add: Quat_invert_def Quat_normalize_def Quat_length_def)

lemma tilt_yawOnly:
  "yawOnly (Quat (12 / 25) (12 / 25) (- (9 / 25)) (16 / 25)) = Quat 0 (3 / 5) 0 (4 / 5)"
proof -
  have "arcsin (24 / 25) * 180 / (pi * 360) * pi = arcsin (24 / 25) / 2"
    using pi_gt_zero by simp
  then show ?thesis
  apply (simp add: yawOnly_def Quat_mul_def Quat_getEulerAngles_y_def Quat_setFromEulerAngles_def Let_def half_yaw)
   done
qed

text \<open>
  For the platform that has turned by a yaw after a pitch, the yaw-only part of the
  rotation since the snapshot is the yaw: the controller moves the rider to
  \<open>(49/25, 7/10, 7/25)\<close>, at its height over the pivot, and turns it by the yaw alone.
\<close>

lemma follow_discards_pitch:
  "getRotation tiltWorld 1 = Quat_mul (Quat 0 (3 / 5) 0 (4 / 5)) (Quat (3 / 5) 0 0 (4 / 5)) \<and>
   yawOnly (Quat_mul (getRotation tiltWorld 1) (Quat_invert (groundPrevRot riderKCC))) =
     Quat 0 (3 / 5) 0 (4 / 5) \<and>
   entityPos (followGround tiltWorld riderKCC) = Vec3 (49 / 25) (7 / 10) (7 / 25) \<and>
   entityRot (followGround tiltWorld riderKCC) = Quat 0 (3 / 5) 0 (4 / 5)"
proof -
  have follow: "followGround tiltWorld riderKCC =
      riderKCC\<lparr>entityRot := Quat 0 (3 / 5) 0 (4 / 5),
                entityPos := Vec3 (49 / 25) (7 / 10) (7 / 25)\<rparr>"
    by (simp add: followGround_def Let_def tiltWorld_def
        riderKCC_def defaultKCC_def invert_identity tilt_yawOnly Quat_mul_def
        Quat_transformVector_def vec_defs)
  have rot: "entityRot riderKCC = Quat 0 0 0 1" "groundPrevRot riderKCC = Quat 0 0 0 1"
    "getRotation tiltWorld e = Quat (12 / 25) (12 / 25) (- (9 / 25)) (16 / 25)" for e
    by (simp_all add: riderKCC_def defaultKCC_def tiltWorld_def)
  show ?thesis
    by (simp add: follow rot invert_identity tilt_yawOnly Quat_mul_def)
qed

lemma euler_y_24_25:
  "Quat_getEulerAngles_y (Quat 0 (4 / 5) 0 (3 / 5)) = arcsin (24 / 25) * (180 / pi)"
  "Quat_getEulerAngles_y (Quat 0 (3 / 5) 0 (4 / 5)) = arcsin (24 / 25) * (180 / pi)"
  by (simp_all add: Quat_getEulerAngles_y_def Let_def)

lemma spin_yawOnly:
  "yawOnly (Quat 0 (4 / 5) 0 (3 / 5)) = Quat 0 (3 / 5) 0 (4 / 5)"
proof -
  have "arcsin (24 / 25) * 180 / (pi * 360) * pi = arcsin (24 / 25) / 2"
    using pi_gt_zero by simp
  then show ?thesis
    by (simp add: yawOnly_def Quat_getEulerAngles_y_def Quat_setFromEulerAngles_def Let_def
        half_yaw)
qed

text \<open>
  C5 fails in the controller of kcc.mjs when the platform turns about \<open>Y\<close> by more than
  a quarter turn between two ticks. The rotation since the snapshot, \<open>(0, 4/5, 0, 3/5)\<close>,
  is a yaw and nothing else (it takes \<open>(0, 0, 1)\<close> to \<open>(24/25, 0, -7/25)\<close>), so the claim
  puts the rider at \<open>(49/25, 7/10, -7/25)\<close>, turned by that rotation. The \<open>y\<close> Euler angle
  the controller reads is an arc sine, at most a quarter turn: it is the same for this
  rotation as for \<open>(0, 3/5, 0, 4/5)\<close>, the yaw of about 74 degrees. The controller turns
  the offset and the rider by the latter: the rider is left at \<open>(49/25, 7/10, 7/25)\<close>,
  and the whole tick, which then falls by 0.0981 in open space, keeps that heading and
  that place over the ground plane.
\<close>

theorem follow_yaw_beyond_quarter_turn:
  "wasGrounded riderKCC \<and> groundEntity riderKCC = Some 1 \<and>
   Quat_mul (getRotation spinWorld 1) (Quat_invert (groundPrevRot riderKCC)) =
     Quat 0 (4 / 5) 0 (3 / 5) \<and>
   Quat_transformVector (Quat 0 (4 / 5) 0 (3 / 5)) (Vec3 0 0 1) =
     Vec3 (24 / 25) 0 (- (7 / 25)) \<and>
   Quat_getEulerAngles_y (Quat 0 (4 / 5) 0 (3 / 5)) =
     Quat_getEulerAngles_y (Quat 0 (3 / 5) 0 (4 / 5)) \<and>
   yawOnly (Quat 0 (4 / 5) 0 (3 / 5)) = Quat 0 (3 / 5) 0 (4 / 5) \<and>
   Vec3_add (getPosition spinWorld 1)
     (Quat_transformVector (Quat 0 (4 / 5) 0 (3 / 5))
        (Vec3_sub (entityPos riderKCC) (groundPrevPos riderKCC))) =
     Vec3 (49 / 25) (7 / 10) (- (7 / 25)) \<and>
   entityPos (followGround spinWorld riderKCC) = Vec3 (49 / 25) (7 / 10) (7 / 25) \<and>
   Quat_mul (Quat 0 (4 / 5) 0 (3 / 5)) (entityRot riderKCC) = Quat 0 (4 / 5) 0 (3 / 5) \<and>
   entityRot (followGround spinWorld riderKCC) = Quat 0 (3 / 5) 0 (4 / 5) \<and>
   entityPos (update spinWorld (1 / 10) riderKCC) = Vec3 (49 / 25) (6019 / 10000) (7 / 25) \<and>
   entityRot (update spinWorld (1 / 10) riderKCC) = Quat 0 (3 / 5) 0 (4 / 5)"
proof -
  have follow: "followGround spinWorld riderKCC =
      riderKCC\<lparr>entityRot := Quat 0 (3 / 5) 0 (4 / 5),
                entityPos := Vec3 (49 / 25) (7 / 10) (7 / 25)\<rparr>"
    by (simp add: followGround_def Let_def spinWorld_def riderKCC_def defaultKCC_def
        invert_identity spin_yawOnly Quat_mul_def Quat_transformVector_def vec_defs)
  have rot: "entityRot riderKCC = Quat 0 0 0 1" "groundPrevRot riderKCC = Quat 0 0 0 1"
    "entityPos riderKCC = Vec3 0 (7 / 10) 1" "groundPrevPos riderKCC = Vec3 0 0 0"
    "wasGrounded riderKCC" "groundEntity riderKCC = Some 1"
    "getRotation spinWorld e = Quat 0 (4 / 5) 0 (3 / 5)" "getPosition spinWorld e = Vec3 1 0 0"
    for e
    by (simp_all add: riderKCC_def defaultKCC_def spinWorld_def)
  have tick: "entityPos (update spinWorld (1 / 10) riderKCC) =
        Vec3 (49 / 25) (6019 / 10000) (7 / 25) \<and>
      entityRot (update spinWorld (1 / 10) riderKCC) = Quat 0 (3 / 5) 0 (4 / 5)"
    by (simp add: tick_defs pass_defs vec_defs Let_def spinWorld_def riderKCC_def defaultKCC_def
        invert_identity spin_yawOnly Quat_mul_def Quat_transformVector_def vertical_simps
        eval_nat_numeral)
  show ?thesis
    by (simp add: follow rot tick invert_identity spin_yawOnly euler_y_24_25 Quat_mul_def
        Quat_transformVector_def vec_defs)
qed

end
